theory Spec2Isabelle
  imports Main "HOL-Library.AList"
begin

section \<open>The mCSD update client of nuts-knooppunt\<close>

text \<open>
  A shallow embedding of \<^verbatim>\<open>component/mcsd/component.go\<close> (the update client: directory
  registry, cursor map, history deduplication, organization tree, paginated queries, the
  per-directory sync and the run over all directories) and of
  \<^verbatim>\<open>component/mcsd/updater.go\<close> (the transaction builder).

  Go strings are byte strings: \<open>string\<close>. A Go \<open>error\<close> is modelled by its message
  (the code inspects errors only through \<^verbatim>\<open>err.Error()\<close>), so a fallible function returns
  \<open>string + 'a\<close> with \<open>Inl\<close> the error message. A pointer that may be nil is an
  \<open>option\<close>.
\<close>

subsection \<open>Go standard library functions the code calls\<close>

text \<open>\<^verbatim>\<open>strings.Split(s, sep)\<close> for a one-byte separator: never empty, \<^verbatim>\<open>Split("", "/")\<close> is
  the one-element slice holding the empty string.\<close>

fun strings_Split :: "string \<Rightarrow> char \<Rightarrow> string list" where
  "strings_Split [] sep = [[]]"
| "strings_Split (c # cs) sep =
     (if c = sep then [] # strings_Split cs sep
      else (case strings_Split cs sep of
              [] \<Rightarrow> [[c]]
            | p # ps \<Rightarrow> (c # p) # ps))"

text \<open>\<^verbatim>\<open>strings.TrimRight(s, "/")\<close>: every trailing slash is removed, not only one.\<close>

definition strings_TrimRight :: "string \<Rightarrow> char \<Rightarrow> string" where
  "strings_TrimRight s c = rev (dropWhile (\<lambda>x. x = c) (rev s))"

text \<open>\<^verbatim>\<open>strings.HasPrefix\<close> and \<^verbatim>\<open>strings.Contains\<close>.\<close>

definition strings_HasPrefix :: "string \<Rightarrow> string \<Rightarrow> bool" where
  "strings_HasPrefix s p = (take (length p) s = p)"

fun strings_Contains :: "string \<Rightarrow> string \<Rightarrow> bool" where
  "strings_Contains [] sub = (sub = [])"
| "strings_Contains (c # cs) sub =
     (strings_HasPrefix (c # cs) sub \<or> strings_Contains cs sub)"

text \<open>\<^verbatim>\<open>strings.ToLower\<close> on the ASCII letters. (Outside ASCII, Go maps only the Kelvin sign
  to an ASCII letter, \<open>k\<close>, which does not occur in the word the code searches for.)\<close>

definition lower_char :: "char \<Rightarrow> char" where
  "lower_char c =
     (case map_of (zip ''ABCDEFGHIJKLMNOPQRSTUVWXYZ'' ''abcdefghijklmnopqrstuvwxyz'') c of
        None \<Rightarrow> c
      | Some l \<Rightarrow> l)"

definition strings_ToLower :: "string \<Rightarrow> string" where
  "strings_ToLower s = map lower_char s"

text \<open>\<^verbatim>\<open>strconv.Itoa\<close> and the verb \<^verbatim>\<open>%d\<close>, on a non-negative number.\<close>

definition digit_char :: "nat \<Rightarrow> char" where
  "digit_char d = ''0123456789'' ! d"

function strconv_Itoa :: "nat \<Rightarrow> string" where
  "strconv_Itoa n =
     (if n < 10 then [digit_char n] else strconv_Itoa (n div 10) @ [digit_char (n mod 10)])"
  by pat_completeness auto
termination
  by (relation "measure id") auto

declare strconv_Itoa.simps [simp del]

subsection \<open>Data model\<close>

text \<open>\<^verbatim>\<open>fhir.HTTPVerb\<close>, \<^verbatim>\<open>fhir.BundleEntryRequest\<close>, \<^verbatim>\<open>fhir.BundleEntryResponse\<close> and
  \<^verbatim>\<open>fhir.BundleEntry\<close> (the fields the code reads). The resource of an entry is a
  \<^verbatim>\<open>json.RawMessage\<close>: uninterpreted bytes, of type \<open>'r\<close> here; the decoders the code
  applies to it are in the record \<open>externals\<close> below.\<close>

datatype HTTPVerb = HTTPVerbGET | HTTPVerbHEAD | HTTPVerbPOST | HTTPVerbPUT
  | HTTPVerbDELETE | HTTPVerbPATCH

record BundleEntryRequest =
  Method :: HTTPVerb
  Url :: string

record BundleEntryResponse =
  Status :: string

record 'r BundleEntry =
  FullUrl :: "string option"
  Resource :: "'r option"
  Request :: "BundleEntryRequest option"
  Response :: "BundleEntryResponse option"

text \<open>A \<^verbatim>\<open>time.Time\<close> is an instant, counted from Go's zero time (so \<^verbatim>\<open>IsZero\<close> is
  \<open>t = 0\<close> and \<^verbatim>\<open>t1.After(t2)\<close> is \<open>t2 < t1\<close>).\<close>

type_synonym time = int

text \<open>\<^verbatim>\<open>libfhir.ResourceInfo\<close>.\<close>

record ResourceInfo =
  ID :: string
  ResourceType :: string
  LastUpdated :: "time option"

text \<open>The typed FHIR resources the code decodes, with the fields it reads.\<close>

record Identifier =
  System :: "string option"
  Value :: "string option"

record Reference =
  Reference :: "string option"

record Organization =
  OrgId :: "string option"
  OrgIdentifier :: "Identifier list"
  PartOf :: "Reference option"
  OrgEndpoint :: "Reference list"

record Coding =
  CodingSystem :: "string option"
  Code :: "string option"

record CodeableConcept =
  CodingList :: "Coding list"

record Endpoint =
  EndpointId :: "string option"
  Address :: string
  PayloadType :: "CodeableConcept list"

text \<open>A decoded JSON document (\<^verbatim>\<open>any\<close> after \<^verbatim>\<open>json.Unmarshal\<close>); a
  \<^verbatim>\<open>map[string]any\<close> is an association list read with \<open>map_of\<close>, written with
  \<open>AList.update\<close> and \<open>AList.delete\<close>.\<close>

datatype json = JNull | JBool bool | JNumber int | JString string
  | JArray "json list" | JObject "(string \<times> json) list"

type_synonym jsonObject = "(string \<times> json) list"

text \<open>\<^verbatim>\<open>parentOrganizationMap\<close>: the Go map is keyed by pointers into the organization
  index, one pointer per organization id; the model lists the pairs.\<close>

type_synonym parentOrganizationMap = "(Organization \<times> Organization list) list"

record ParsedURL =
  Scheme :: string
  Host :: string

text \<open>
  Functions this code calls that are outside it, as parameters of the model:
  a theorem that quantifies over \<open>ext\<close> holds for every implementation of them.
  \<^item> \<open>ExtractResourceInfo\<close>: \<^verbatim>\<open>libfhir.ExtractResourceInfo\<close> (\<open>None\<close>: an error);
  \<^item> \<open>UnmarshalOrganization\<close>, \<open>UnmarshalEndpoint\<close>, \<open>UnmarshalHealthcareService\<close>,
    \<open>UnmarshalMap\<close>: \<^verbatim>\<open>json.Unmarshal\<close> into \<^verbatim>\<open>fhir.Organization\<close> (\<open>None\<close>: an
    error), \<^verbatim>\<open>fhir.Endpoint\<close>, \<^verbatim>\<open>fhir.HealthcareService\<close> (only success is read) and
    \<^verbatim>\<open>map[string]any\<close>;
  \<^item> \<open>FilterIdentifiersBySystem\<close>: \<^verbatim>\<open>libfhir.FilterIdentifiersBySystem\<close>;
  \<^item> \<open>BuildSourceURL\<close>: \<^verbatim>\<open>libfhir.BuildSourceURL(base, parts...)\<close>;
  \<^item> \<open>ValidateUpdate\<close>, \<open>ValidateParentOrganizations\<close>: the validator (\<open>None\<close>: accepted);
  \<^item> \<open>CodablesIncludesCode\<close>: \<^verbatim>\<open>coding.CodablesIncludesCode\<close>;
  \<^item> \<open>extractReferenceID\<close>: the helper of that name of this package;
  \<^item> \<open>fmt_pointer\<close>: what the verb \<^verbatim>\<open>%v\<close> prints for a \<^verbatim>\<open>*string\<close>;
  \<^item> \<open>url_Parse\<close>, \<open>url_QueryEscape\<close>: Go's \<^verbatim>\<open>net/url\<close>.
\<close>

record 'r externals =
  ExtractResourceInfo :: "'r \<Rightarrow> ResourceInfo option"
  UnmarshalOrganization :: "'r \<Rightarrow> Organization option"
  UnmarshalEndpoint :: "'r \<Rightarrow> string + Endpoint"
  UnmarshalHealthcareService :: "'r \<Rightarrow> bool"
  UnmarshalMap :: "'r \<Rightarrow> string + jsonObject"
  FilterIdentifiersBySystem :: "Identifier list \<Rightarrow> string \<Rightarrow> Identifier list"
  BuildSourceURL :: "string \<Rightarrow> string list \<Rightarrow> string + string"
  ValidateUpdate :: "string list \<Rightarrow> 'r \<Rightarrow> parentOrganizationMap
     \<Rightarrow> 'r BundleEntry list \<Rightarrow> string option"
  ValidateParentOrganizations :: "parentOrganizationMap \<Rightarrow> string option"
  CodablesIncludesCode :: "CodeableConcept list \<Rightarrow> Coding \<Rightarrow> bool"
  extractReferenceID :: "string option \<Rightarrow> string"
  fmt_pointer :: "string option \<Rightarrow> string"
  url_Parse :: "string \<Rightarrow> string + ParsedURL"
  url_QueryEscape :: "string \<Rightarrow> string"

subsection \<open>History deduplication\<close>

text \<open>\<^verbatim>\<open>getLastUpdated\<close>: the zero time when the entry has no resource, the resource
  cannot be read, or it has no \<^verbatim>\<open>meta.lastUpdated\<close>.\<close>

definition getLastUpdated :: "'r externals \<Rightarrow> 'r BundleEntry \<Rightarrow> time" where
  "getLastUpdated ext entry =
     (case Resource entry of
        None \<Rightarrow> 0
      | Some r \<Rightarrow>
          (case ExtractResourceInfo ext r of
             None \<Rightarrow> 0
           | Some info \<Rightarrow> (case LastUpdated info of None \<Rightarrow> 0 | Some t \<Rightarrow> t)))"

text \<open>\<^verbatim>\<open>isMoreRecent\<close>: only when both entries carry a timestamp; otherwise "cannot
  determine which is more recent, do not overwrite".\<close>

definition isMoreRecent :: "'r externals \<Rightarrow> 'r BundleEntry \<Rightarrow> 'r BundleEntry \<Rightarrow> bool" where
  "isMoreRecent ext entry1 entry2 =
     (let time1 = getLastUpdated ext entry1; time2 = getLastUpdated ext entry2
      in if time1 \<noteq> 0 \<and> time2 \<noteq> 0 then time2 < time1 else False)"

text \<open>\<^verbatim>\<open>extractResourceIDFromURL\<close>: the second segment of \<^verbatim>\<open>request.url\<close>, else the
  last segment of \<^verbatim>\<open>fullUrl\<close>, else the empty string.\<close>

definition extractResourceIDFromURL :: "'r BundleEntry \<Rightarrow> string" where
  "extractResourceIDFromURL entry =
     (let fromFullUrl =
            (case FullUrl entry of
               None \<Rightarrow> []
             | Some u \<Rightarrow> last (strings_Split u (CHR ''/'')))
      in case Request entry of
           None \<Rightarrow> fromFullUrl
         | Some rq \<Rightarrow>
             (if Url rq \<noteq> [] \<and> 2 \<le> length (strings_Split (Url rq) (CHR ''/''))
              then strings_Split (Url rq) (CHR ''/'') ! 1
              else fromFullUrl))"

text \<open>The resource id the loop of \<^verbatim>\<open>deduplicateHistoryEntries\<close> computes for an entry
  (empty: none).\<close>

definition entryResourceID :: "'r externals \<Rightarrow> 'r BundleEntry \<Rightarrow> string" where
  "entryResourceID ext entry =
     (case Resource entry of
        None \<Rightarrow>
          (case Request entry of
             None \<Rightarrow> []
           | Some rq \<Rightarrow>
               if Method rq = HTTPVerbDELETE then extractResourceIDFromURL entry else [])
      | Some r \<Rightarrow>
          (case ExtractResourceInfo ext r of None \<Rightarrow> [] | Some info \<Rightarrow> ID info))"

text \<open>The loop body and the loop: \<open>resourceMap\<close> is the Go map (an association list with
  one pair per key), \<open>entriesWithoutID\<close> the slice.\<close>

definition dedupStep :: "'r externals \<Rightarrow> 'r BundleEntry
    \<Rightarrow> (string \<times> 'r BundleEntry) list \<times> 'r BundleEntry list
    \<Rightarrow> (string \<times> 'r BundleEntry) list \<times> 'r BundleEntry list" where
  "dedupStep ext entry st =
     (let resourceMap = fst st; entriesWithoutID = snd st;
          resourceID = entryResourceID ext entry
      in if resourceID \<noteq> []
         then (case map_of resourceMap resourceID of
                 None \<Rightarrow> (AList.update resourceID entry resourceMap, entriesWithoutID)
               | Some existing \<Rightarrow>
                   if isMoreRecent ext entry existing
                   then (AList.update resourceID entry resourceMap, entriesWithoutID)
                   else (resourceMap, entriesWithoutID))
         else (resourceMap, entriesWithoutID @ [entry]))"

fun dedupLoop :: "'r externals \<Rightarrow> 'r BundleEntry list
    \<Rightarrow> (string \<times> 'r BundleEntry) list \<times> 'r BundleEntry list
    \<Rightarrow> (string \<times> 'r BundleEntry) list \<times> 'r BundleEntry list" where
  "dedupLoop ext [] st = st"
| "dedupLoop ext (entry # entries) st = dedupLoop ext entries (dedupStep ext entry st)"

text \<open>\<^verbatim>\<open>deduplicateHistoryEntries\<close>. Go ranges over \<open>resourceMap\<close> in an unspecified
  order; the model lists its values in the order the ids were first seen. The theorems
  below read the result only through \<open>filter\<close> on one id, which does not depend on that
  order.\<close>

definition deduplicateHistoryEntries :: "'r externals \<Rightarrow> 'r BundleEntry list
    \<Rightarrow> 'r BundleEntry list" where
  "deduplicateHistoryEntries ext entries =
     (let st = dedupLoop ext entries ([], [])
      in map snd (fst st) @ snd st)"

subsection \<open>The component and its directory registry\<close>

record Config =
  AdministrationDirectories :: "(string \<times> string) list"
  QueryDirectory :: string
  ExcludeAdminDirectories :: "string list"
  DirectoryResourceTypes :: "string list"
  StateFile :: string
  SnapshotModeSupport :: bool

record administrationDirectory =
  fhirBaseURL :: string
  resourceTypes :: "string list"
  discover :: bool
  sourceURL :: string
  authoritativeUra :: string

record DirectoryUpdateReport =
  CountCreated :: nat
  CountUpdated :: nat
  CountDeleted :: nat
  Warnings :: "string list"
  Errors :: "string list"

type_synonym UpdateReport = "string \<rightharpoonup> DirectoryUpdateReport"

text \<open>\<^verbatim>\<open>Component\<close>: the state the update client keeps between runs (the registry
  \<open>administrationDirectories\<close> and the cursor map \<open>lastUpdateTimes\<close>).\<close>

record Component =
  config :: Config
  administrationDirectories :: "administrationDirectory list"
  directoryResourceTypes :: "string list"
  lastUpdateTimes :: "string \<rightharpoonup> string"

definition rootDirectoryResourceTypes :: "string list" where
  "rootDirectoryResourceTypes = [''Organization'', ''Endpoint'']"

definition defaultDirectoryResourceTypes :: "string list" where
  "defaultDirectoryResourceTypes =
     [''Organization'', ''Endpoint'', ''Location'', ''HealthcareService'',
      ''PractitionerRole'', ''Practitioner'']"

definition maxUpdateEntries :: nat where
  "maxUpdateEntries = 1000"

definition is410GoneError :: "string \<Rightarrow> bool" where
  "is410GoneError errStr =
     (strings_Contains errStr ''410'' \<or> strings_Contains (strings_ToLower errStr) ''gone'')"

definition makeDirectoryKey :: "string \<Rightarrow> string \<Rightarrow> string" where
  "makeDirectoryKey baseURL ura = (if ura = [] then baseURL else baseURL @ ''|'' @ ura)"

text \<open>\<^verbatim>\<open>registerAdministrationDirectory\<close>: \<open>Inl\<close> the error, \<open>Inr\<close> the component after
  the call (unchanged when the URL is excluded or already registered).\<close>

definition registerAdministrationDirectory :: "'r externals \<Rightarrow> Component \<Rightarrow> string
    \<Rightarrow> string list \<Rightarrow> bool \<Rightarrow> string \<Rightarrow> string \<Rightarrow> string + Component" where
  "registerAdministrationDirectory ext c baseURL types disc srcURL ura =
     (case url_Parse ext baseURL of
        Inl err \<Rightarrow> Inl (''invalid FHIR base URL (url='' @ baseURL @ ''): '' @ err)
      | Inr parsed \<Rightarrow>
          (let scheme = strings_ToLower (Scheme parsed) in
           if (scheme \<noteq> ''https'' \<and> scheme \<noteq> ''http'') \<or> Host parsed = []
           then Inl (''invalid FHIR base URL (url='' @ baseURL @ '')'')
           else
             (let trimmedFHIRBaseURL = strings_TrimRight baseURL (CHR ''/'') in
              if \<exists>excludedURL \<in> set (ExcludeAdminDirectories (config c)).
                   strings_TrimRight excludedURL (CHR ''/'') = trimmedFHIRBaseURL
              then Inr c
              else if \<exists>directory \<in> set (administrationDirectories c).
                        fhirBaseURL directory = baseURL \<and> authoritativeUra directory = ura
              then Inr c
              else Inr (c\<lparr>administrationDirectories := administrationDirectories c @
                     [\<lparr>fhirBaseURL = baseURL, resourceTypes = types, discover = disc,
                       sourceURL = srcURL, authoritativeUra = ura\<rparr>]\<rparr>))))"

text \<open>\<^verbatim>\<open>unregisterAdministrationDirectory\<close> (\<^verbatim>\<open>slices.DeleteFunc\<close>) and
  \<^verbatim>\<open>processEndpointDeletes\<close>.\<close>

definition unregisterAdministrationDirectory :: "Component \<Rightarrow> string \<Rightarrow> Component" where
  "unregisterAdministrationDirectory c fullUrl =
     c\<lparr>administrationDirectories :=
         filter (\<lambda>dir. sourceURL dir \<noteq> fullUrl) (administrationDirectories c)\<rparr>"

definition isEndpointDelete :: "'r BundleEntry \<Rightarrow> bool" where
  "isEndpointDelete entry =
     (case Request entry of
        None \<Rightarrow> False
      | Some rq \<Rightarrow>
          Method rq = HTTPVerbDELETE \<and> FullUrl entry \<noteq> None \<and>
          (let parts = strings_Split (Url rq) (CHR ''/'')
           in 2 \<le> length parts \<and> parts ! 0 = ''Endpoint''))"

fun processEndpointDeletes :: "Component \<Rightarrow> 'r BundleEntry list \<Rightarrow> Component" where
  "processEndpointDeletes c [] = c"
| "processEndpointDeletes c (entry # entries) =
     processEndpointDeletes
       (if isEndpointDelete entry
        then unregisterAdministrationDirectory c (the (FullUrl entry)) else c)
       entries"

text \<open>\<^verbatim>\<open>New\<close>: the component with the configured root directories registered (the Go map
  \<open>AdministrationDirectories\<close> is ranged over in an unspecified order: the list's here).
  \<open>persisted\<close> is what \<^verbatim>\<open>loadSyncState\<close> reads from the state file. The HTTP client is
  outside the model.\<close>

fun registerRoots :: "'r externals \<Rightarrow> Component \<Rightarrow> (string \<times> string) list
    \<Rightarrow> string + Component" where
  "registerRoots ext c [] = Inr c"
| "registerRoots ext c ((name, url) # roots) =
     (case registerAdministrationDirectory ext c url rootDirectoryResourceTypes True [] [] of
        Inl err \<Rightarrow>
          Inl (''register root administration directory (url='' @ url @ ''): '' @ err)
      | Inr c' \<Rightarrow> registerRoots ext c' roots)"

definition New :: "'r externals \<Rightarrow> (string \<rightharpoonup> string) \<Rightarrow> Config \<Rightarrow> string + Component" where
  "New ext persisted cfg =
     (case registerRoots ext
             \<lparr>config = cfg, administrationDirectories = [],
              directoryResourceTypes = DirectoryResourceTypes cfg,
              lastUpdateTimes = (if StateFile cfg \<noteq> [] then persisted else Map.empty)\<rparr>
             (AdministrationDirectories cfg) of
        Inl err \<Rightarrow> Inl err
      | Inr c \<Rightarrow>
          Inr (if DirectoryResourceTypes (config c) = []
               then c\<lparr>config := (config c)\<lparr>DirectoryResourceTypes :=
                        defaultDirectoryResourceTypes\<rparr>\<rparr>
               else c))"

subsection \<open>The organization tree\<close>

text \<open>The URA naming system, \<^verbatim>\<open>coding.URANamingSystem\<close>, with the value the tests of
  this package write out.\<close>

definition URANamingSystem :: string where
  "URANamingSystem = ''http://fhir.nl/fhir/NamingSystem/ura''"

text \<open>The parent id that \<^verbatim>\<open>organizationLinksToParentRecursive\<close> extracts from a
  \<^verbatim>\<open>partOf\<close> reference.\<close>

definition partOfID :: "string \<Rightarrow> string" where
  "partOfID ref =
     (if strings_Contains ref ''/'' then last (strings_Split ref (CHR ''/'')) else ref)"

text \<open>\<^verbatim>\<open>organizationLinksToParentRecursive\<close>: \<open>visited\<close> is the Go map of visited ids,
  threaded through the calls.\<close>

function organizationLinksToParentRecursive :: "(string \<times> Organization) list
    \<Rightarrow> Organization \<Rightarrow> Organization \<Rightarrow> string set \<Rightarrow> nat \<Rightarrow> nat \<Rightarrow> bool" where
  "organizationLinksToParentRecursive orgMap org parentOrg visited depth maxDepth =
     (if depth > maxDepth then False
      else if (case OrgId org of None \<Rightarrow> False | Some i \<Rightarrow> i \<in> visited) then False
      else if (case OrgId org of None \<Rightarrow> False | Some i \<Rightarrow> OrgId parentOrg = Some i)
      then True
      else
        (case PartOf org of
           None \<Rightarrow> False
         | Some partOf \<Rightarrow>
             (case Reference partOf of
                None \<Rightarrow> False
              | Some ref \<Rightarrow>
                  (let parentID = partOfID ref
                   in case map_of orgMap parentID of
                        None \<Rightarrow> False
                      | Some nextOrg \<Rightarrow>
                          organizationLinksToParentRecursive orgMap nextOrg parentOrg
                            (case OrgId org of None \<Rightarrow> visited | Some i \<Rightarrow> insert i visited)
                            (depth + 1) maxDepth))))"
  by pat_completeness auto
termination
  by (relation "measure (\<lambda>(orgMap, org, parentOrg, visited, depth, maxDepth).
        Suc maxDepth - depth)") auto

declare organizationLinksToParentRecursive.simps [simp del]

definition organizationLinksToParent :: "(string \<times> Organization) list
    \<Rightarrow> Organization \<Rightarrow> Organization \<Rightarrow> bool" where
  "organizationLinksToParent orgMap org parentOrg =
     organizationLinksToParentRecursive orgMap org parentOrg {} 0 10"

definition findOrganizationsLinkedToParent :: "(string \<times> Organization) list
    \<Rightarrow> Organization \<Rightarrow> Organization list" where
  "findOrganizationsLinkedToParent orgMap parentOrg =
     filter (\<lambda>org. \<not> (OrgId org \<noteq> None \<and> OrgId parentOrg \<noteq> None \<and> OrgId org = OrgId parentOrg)
               \<and> organizationLinksToParent orgMap org parentOrg)
       (map snd orgMap)"

text \<open>The index of organizations by id that \<^verbatim>\<open>createOrganizationTree\<close> builds first.\<close>

fun buildOrgMap :: "'r externals \<Rightarrow> 'r BundleEntry list \<Rightarrow> (string \<times> Organization) list
    \<Rightarrow> (string \<times> Organization) list" where
  "buildOrgMap ext [] orgMap = orgMap"
| "buildOrgMap ext (entry # entries) orgMap =
     buildOrgMap ext entries
       (case Resource entry of
          None \<Rightarrow> orgMap
        | Some r \<Rightarrow>
            (case UnmarshalOrganization ext r of
               None \<Rightarrow> orgMap
             | Some org \<Rightarrow>
                 (case OrgId org of
                    None \<Rightarrow> orgMap
                  | Some i \<Rightarrow> AList.update i org orgMap)))"

text \<open>\<^verbatim>\<open>createOrganizationTree\<close> (it never returns an error). Go ranges over the index
  in an unspecified order; the model in the order of the association list.\<close>

definition createOrganizationTree :: "'r externals \<Rightarrow> 'r BundleEntry list
    \<Rightarrow> parentOrganizationMap" where
  "createOrganizationTree ext entries =
     (let orgMap = buildOrgMap ext entries []
      in map (\<lambda>org. (org, findOrganizationsLinkedToParent orgMap org))
           (filter (\<lambda>org. FilterIdentifiersBySystem ext (OrgIdentifier org) URANamingSystem \<noteq> [])
              (map snd orgMap)))"

subsection \<open>Paginated queries\<close>

record BundleMeta =
  MetaLastUpdated :: "string option"

record 'r Bundle =
  Entry :: "'r BundleEntry list"
  Meta :: "BundleMeta option"

text \<open>What the remote server answers to one search: the first page
  (\<^verbatim>\<open>client.SearchWithContext\<close>) and the pages that the \<^verbatim>\<open>next\<close> links lead to, in
  order, each an error or a bundle; the last bundle is the one without a \<^verbatim>\<open>next\<close>
  link.\<close>

record 'r searchAnswer =
  firstPage :: "string + 'r Bundle"
  nextPages :: "(string + 'r Bundle) list"

text \<open>\<^verbatim>\<open>fhirclient.Paginate\<close> with the callback \<^verbatim>\<open>queryFHIR\<close> gives it: each page's
  entries are appended, and the callback fails once the total has reached
  \<open>maxUpdateEntries\<close>.\<close>

fun paginate :: "'r BundleEntry list \<Rightarrow> (string + 'r Bundle) list
    \<Rightarrow> string + 'r BundleEntry list" where
  "paginate entries [] = Inr entries"
| "paginate entries (Inl err # pages) = Inl err"
| "paginate entries (Inr searchSet # pages) =
     (let entries' = entries @ Entry searchSet
      in if length entries' \<ge> maxUpdateEntries
         then Inl (''too many entries ('' @ strconv_Itoa (length entries') @
                   ''), aborting update to prevent excessive memory usage'')
         else paginate entries' pages)"

definition queryFHIR :: "'r searchAnswer \<Rightarrow> bool \<Rightarrow> string + 'r BundleEntry list \<times> 'r Bundle" where
  "queryFHIR answer includeHistory =
     (let searchErrMsg = (if includeHistory then ''_history search failed'' else ''query failed'');
          paginationErrMsg =
            (if includeHistory then ''pagination of _history search failed''
             else ''pagination of search failed'')
      in case firstPage answer of
           Inl err \<Rightarrow> Inl (searchErrMsg @ '': '' @ err)
         | Inr searchSet \<Rightarrow>
             (case paginate [] (Inr searchSet # nextPages answer) of
                Inl err \<Rightarrow> Inl (paginationErrMsg @ '': '' @ err)
              | Inr entries \<Rightarrow> Inr (entries, searchSet)))"

definition queryHistory :: "'r searchAnswer \<Rightarrow> string + 'r BundleEntry list \<times> 'r Bundle" where
  "queryHistory answer = queryFHIR answer True"

definition query :: "'r searchAnswer \<Rightarrow> string + 'r BundleEntry list \<times> 'r Bundle" where
  "query answer = queryFHIR answer False"

subsection \<open>The transaction builder\<close>

text \<open>The payload type that marks an mCSD directory endpoint (\<^verbatim>\<open>coding.PayloadCoding\<close>,
  built from \<^verbatim>\<open>coding.MCSDPayloadTypeSystem\<close> and
  \<^verbatim>\<open>coding.MCSDPayloadTypeDirectoryCode\<close>), with the values the tests of this package
  write out.\<close>

definition MCSDPayloadTypeSystem :: string where
  "MCSDPayloadTypeSystem =
     ''http://nuts-foundation.github.io/nl-generic-functions-ig/CodeSystem/nl-gf-data-exchange-capabilities''"

definition MCSDPayloadTypeDirectoryCode :: string where
  "MCSDPayloadTypeDirectoryCode =
     ''http://nuts-foundation.github.io/nl-generic-functions-ig/CapabilityStatement/nl-gf-admin-directory-update-client''"

definition PayloadCoding :: Coding where
  "PayloadCoding =
     \<lparr>CodingSystem = Some MCSDPayloadTypeSystem, Code = Some MCSDPayloadTypeDirectoryCode\<rparr>"

text \<open>\<^verbatim>\<open>hasURAIdentifier\<close>.\<close>

definition isURAIdentifier :: "json \<Rightarrow> bool" where
  "isURAIdentifier ident =
     (case ident of
        JObject idMap \<Rightarrow>
          (case map_of idMap ''system'' of
             Some (JString system) \<Rightarrow> system = URANamingSystem
           | _ \<Rightarrow> False)
      | _ \<Rightarrow> False)"

definition hasURAIdentifier :: "jsonObject \<Rightarrow> bool" where
  "hasURAIdentifier resource =
     (case map_of resource ''identifier'' of
        Some (JArray identifiers) \<Rightarrow> list_ex isURAIdentifier identifiers
      | _ \<Rightarrow> False)"

text \<open>\<^verbatim>\<open>updateResourceMeta\<close>: the Go code changes the \<^verbatim>\<open>meta\<close> map in place; the model
  writes the changed map back under \<^verbatim>\<open>meta\<close>.\<close>

definition updateResourceMeta :: "jsonObject \<Rightarrow> string \<Rightarrow> jsonObject" where
  "updateResourceMeta resource source =
     (let meta = (case map_of resource ''meta'' of Some (JObject m) \<Rightarrow> m | _ \<Rightarrow> [])
      in AList.update ''meta''
           (JObject (AList.delete ''lastUpdated'' (AList.delete ''versionId''
              (AList.update ''source'' (JString source) meta))))
           resource)"

text \<open>The new value of \<^verbatim>\<open>v["reference"]\<close> in \<^verbatim>\<open>convertReferencesRecursive\<close>: \<open>Inr None\<close>
  when the map has no string there or it is not of the shape \<^verbatim>\<open>Type/id\<close>.\<close>

definition convertedReference :: "'r externals \<Rightarrow> jsonObject \<Rightarrow> string
    \<Rightarrow> string + string option" where
  "convertedReference ext v sourceBaseURL =
     (case map_of v ''reference'' of
        Some (JString ref) \<Rightarrow>
          (let parts = strings_Split ref (CHR ''/'') in
           if length parts = 2
           then (case BuildSourceURL ext sourceBaseURL [ref] of
                   Inl err \<Rightarrow> Inl (''failed to build source URL for reference: '' @ err)
                 | Inr srcURL \<Rightarrow>
                     Inr (Some (parts ! 0 @ ''?_source='' @ url_QueryEscape ext srcURL)))
           else Inr None)
      | _ \<Rightarrow> Inr None)"

text \<open>The first error of a list of results, or all the values.\<close>

fun sequenceErr :: "(string + 'a) list \<Rightarrow> string + 'a list" where
  "sequenceErr [] = Inr []"
| "sequenceErr (Inl err # rs) = Inl err"
| "sequenceErr (Inr x # rs) = (case sequenceErr rs of Inl err \<Rightarrow> Inl err | Inr xs \<Rightarrow> Inr (x # xs))"

text \<open>\<^verbatim>\<open>convertReferencesRecursive\<close>. The Go code stores the new reference and then
  walks the values of the map (in an unspecified order), which leaves a string as it is;
  the model walks the values and then stores the new reference, and returns the document
  that the Go code leaves behind in place.\<close>

fun convertReferencesRecursive :: "'r externals \<Rightarrow> json \<Rightarrow> string \<Rightarrow> string + json" where
  "convertReferencesRecursive ext (JObject v) base =
     (case convertedReference ext v base of
        Inl err \<Rightarrow> Inl err
      | Inr newRef \<Rightarrow>
          (case sequenceErr (map (\<lambda>(k, x).
                   case convertReferencesRecursive ext x base of
                     Inl err \<Rightarrow> Inl err | Inr x' \<Rightarrow> Inr (k, x')) v) of
             Inl err \<Rightarrow> Inl err
           | Inr v' \<Rightarrow>
               Inr (JObject (case newRef of
                      None \<Rightarrow> v'
                    | Some x \<Rightarrow> AList.update ''reference'' (JString x) v'))))"
| "convertReferencesRecursive ext (JArray items) base =
     (case sequenceErr (map (\<lambda>x. convertReferencesRecursive ext x base) items) of
        Inl err \<Rightarrow> Inl err | Inr items' \<Rightarrow> Inr (JArray items'))"
| "convertReferencesRecursive ext JNull base = Inr JNull"
| "convertReferencesRecursive ext (JBool b) base = Inr (JBool b)"
| "convertReferencesRecursive ext (JNumber n) base = Inr (JNumber n)"
| "convertReferencesRecursive ext (JString x) base = Inr (JString x)"

text \<open>The call of \<^verbatim>\<open>convertReferencesRecursive\<close> on the resource, a map (on a map
  the function returns a map: the last case is never taken).\<close>

definition convertMap :: "'r externals \<Rightarrow> jsonObject \<Rightarrow> string \<Rightarrow> string + jsonObject" where
  "convertMap ext v base =
     (case convertReferencesRecursive ext (JObject v) base of
        Inl err \<Rightarrow> Inl err
      | Inr (JObject v') \<Rightarrow> Inr v'
      | Inr _ \<Rightarrow> Inr v)"

text \<open>\<^verbatim>\<open>buildUpdateTransaction\<close>: the transaction bundle's entries after the call, and
  the error or the resource type returned. An entry of the transaction holds the decoded
  document that the Go code marshals into it. First the branch for DELETE entries, then
  the branch for the others.\<close>

definition sourceRequestUrl :: "'r externals \<Rightarrow> string \<Rightarrow> string \<Rightarrow> string" where
  "sourceRequestUrl ext resourceType srcURL =
     resourceType @ ''?'' @ ''_source='' @ url_QueryEscape ext srcURL"

definition buildDelete :: "'r externals \<Rightarrow> jsonObject BundleEntry list \<Rightarrow> BundleEntryRequest
    \<Rightarrow> string list \<Rightarrow> string \<Rightarrow> jsonObject BundleEntry list \<times> (string + string)" where
  "buildDelete ext tx rq allowed sourceBaseURL =
     (let parts = strings_Split (Url rq) (CHR ''/'') in
      if length parts < 2 then (tx, Inl (''invalid DELETE URL format: '' @ Url rq))
      else
        (let resourceType = parts ! 0; resourceID = parts ! 1 in
         if resourceType \<notin> set allowed
         then (tx, Inl (''resource type '' @ resourceType @ '' not allowed''))
         else
           (case BuildSourceURL ext sourceBaseURL [resourceType, resourceID] of
              Inl err \<Rightarrow> (tx, Inl (''failed to build source URL for DELETE: '' @ err))
            | Inr srcURL \<Rightarrow>
                (tx @ [\<lparr>FullUrl = None, Resource = None,
                         Request = Some \<lparr>Method = HTTPVerbDELETE,
                                          Url = sourceRequestUrl ext resourceType srcURL\<rparr>,
                         Response = None\<rparr>],
                 Inr resourceType))))"

text \<open>The LRZa name authority rule: a provider directory's name for an Organization
  with a URA identifier is dropped.\<close>

definition stripName :: "string \<Rightarrow> bool \<Rightarrow> jsonObject \<Rightarrow> jsonObject" where
  "stripName resourceType isDiscoverableDirectory resource =
     (if resourceType = ''Organization'' \<and> \<not> isDiscoverableDirectory
         \<and> hasURAIdentifier resource
      then AList.delete ''name'' resource else resource)"

text \<open>The value of \<^verbatim>\<open>doSync\<close>, or the error of decoding the Endpoint.\<close>

definition doSync :: "'r externals \<Rightarrow> bool \<Rightarrow> string \<Rightarrow> 'r \<Rightarrow> string + bool" where
  "doSync ext isDiscoverableDirectory resourceType r =
     (if isDiscoverableDirectory
      then (if resourceType = ''Endpoint''
            then (case UnmarshalEndpoint ext r of
                    Inl err \<Rightarrow> Inl (''failed to unmarshal Endpoint resource: '' @ err)
                  | Inr endpoint \<Rightarrow>
                      Inr (CodablesIncludesCode ext (PayloadType endpoint) PayloadCoding))
            else Inr False)
      else Inr True)"

text \<open>The end of \<^verbatim>\<open>buildUpdateTransaction\<close>, once \<^verbatim>\<open>doSync\<close> holds: the source URL, the
  meta, the id, the references and the entry.\<close>

definition emitPut :: "'r externals \<Rightarrow> jsonObject BundleEntry list \<Rightarrow> string \<Rightarrow> string
    \<Rightarrow> jsonObject \<Rightarrow> string \<Rightarrow> jsonObject BundleEntry list \<times> (string + string)" where
  "emitPut ext tx fullUrl resourceType resource1 sourceBaseURL =
     (case map_of resource1 ''id'' of
        Some (JString resourceID) \<Rightarrow>
          (case BuildSourceURL ext sourceBaseURL [resourceType, resourceID] of
             Inl err \<Rightarrow> (tx, Inl (''failed to build source URL: '' @ err))
           | Inr srcURL \<Rightarrow>
               (case convertMap ext
                       (AList.delete ''id'' (updateResourceMeta resource1 srcURL))
                       sourceBaseURL of
                  Inl err \<Rightarrow> (tx, Inl (''failed to convert references: '' @ err))
                | Inr resource \<Rightarrow>
                    (tx @ [\<lparr>FullUrl = None, Resource = Some resource,
                             Request = Some \<lparr>Method = HTTPVerbPUT,
                                              Url = sourceRequestUrl ext resourceType srcURL\<rparr>,
                             Response = None\<rparr>],
                     Inr resourceType)))
      | _ \<Rightarrow> (tx, Inl (''resource missing ID field (fullUrl='' @ fullUrl @ '')'')))"

definition buildPut :: "'r externals \<Rightarrow> jsonObject BundleEntry list \<Rightarrow> string \<Rightarrow> 'r
    \<Rightarrow> string list \<Rightarrow> parentOrganizationMap \<Rightarrow> 'r BundleEntry list \<Rightarrow> bool \<Rightarrow> string
    \<Rightarrow> jsonObject BundleEntry list \<times> (string + string)" where
  "buildPut ext tx fullUrl r allowed parentOrganizationMap allHealthcareServices
       isDiscoverableDirectory sourceBaseURL =
     (case UnmarshalMap ext r of
        Inl err \<Rightarrow>
          (tx, Inl (''failed to unmarshal resource (fullUrl='' @ fullUrl @ ''): '' @ err))
      | Inr resource \<Rightarrow>
          (case map_of resource ''resourceType'' of
             Some (JString resourceType) \<Rightarrow>
               (case ValidateUpdate ext allowed r parentOrganizationMap
                       allHealthcareServices of
                  Some err \<Rightarrow> (tx, Inl err)
                | None \<Rightarrow>
                    (case doSync ext isDiscoverableDirectory resourceType r of
                       Inl err \<Rightarrow> (tx, Inl err)
                     | Inr sync \<Rightarrow>
                         if \<not> sync then (tx, Inr resourceType)
                         else emitPut ext tx fullUrl resourceType
                                (stripName resourceType isDiscoverableDirectory resource)
                                sourceBaseURL))
           | _ \<Rightarrow> (tx, Inl (''not a valid resourceType (fullUrl='' @ fullUrl @ '')''))))"

definition buildUpdateTransaction :: "'r externals \<Rightarrow> jsonObject BundleEntry list
    \<Rightarrow> 'r BundleEntry \<Rightarrow> string list \<Rightarrow> parentOrganizationMap \<Rightarrow> 'r BundleEntry list
    \<Rightarrow> bool \<Rightarrow> string \<Rightarrow> jsonObject BundleEntry list \<times> (string + string)" where
  "buildUpdateTransaction ext tx entry allowed parentOrganizationMap allHealthcareServices
       isDiscoverableDirectory sourceBaseURL =
     (case FullUrl entry of
        None \<Rightarrow> (tx, Inl ''missing 'fullUrl' field'')
      | Some fullUrl \<Rightarrow>
          (case Request entry of
             None \<Rightarrow> (tx, Inl ''missing 'request' field'')
           | Some rq \<Rightarrow>
               if Method rq = HTTPVerbDELETE
               then buildDelete ext tx rq allowed sourceBaseURL
               else
                 (case Resource entry of
                    None \<Rightarrow> (tx, Inl ''missing 'resource' field for non-DELETE operation'')
                  | Some r \<Rightarrow>
                      buildPut ext tx fullUrl r allowed parentOrganizationMap
                        allHealthcareServices isDiscoverableDirectory sourceBaseURL)))"

subsection \<open>The sync of one directory\<close>

text \<open>
  What the remote servers answer during one call of \<^verbatim>\<open>updateFromDirectory\<close>:
  \<^item> \<open>answerHistory i resourceType since\<close>: to the \<^verbatim>\<open>_history\<close> query for the \<open>i\<close>-th
    allowed resource type, with the \<^verbatim>\<open>_since\<close> parameter that was sent;
  \<^item> \<open>answerSearch i resourceType\<close>: to the current-state query of snapshot mode;
  \<^item> \<open>answerOrganizations\<close>: to the query for all organizations in
    \<^verbatim>\<open>ensureParentOrganizationsMap\<close>;
  \<^item> \<open>answerTransaction tx\<close>: the query directory's answer to the transaction bundle;
  \<^item> \<open>localTime\<close>: the query start time minus the clock skew buffer, formatted.
\<close>

record 'r answers =
  answerHistory :: "nat \<Rightarrow> string \<Rightarrow> string option \<Rightarrow> 'r searchAnswer"
  answerSearch :: "nat \<Rightarrow> string \<Rightarrow> 'r searchAnswer"
  answerOrganizations :: "'r searchAnswer"
  answerTransaction :: "jsonObject BundleEntry list \<Rightarrow> string + jsonObject Bundle"
  localTime :: string

definition emptyBundle :: "'r Bundle" where
  "emptyBundle = \<lparr>Entry = [], Meta = None\<rparr>"

definition emptyReport :: DirectoryUpdateReport where
  "emptyReport = \<lparr>CountCreated = 0, CountUpdated = 0, CountDeleted = 0,
                   Warnings = [], Errors = []\<rparr>"

text \<open>The loop of history mode over the allowed resource types: an error, or whether
  the loop fell back to snapshot mode (410 Gone with snapshot support), the entries and
  the first search set.\<close>

fun historyLoop :: "'r answers \<Rightarrow> bool \<Rightarrow> string option \<Rightarrow> nat \<Rightarrow> string list
    \<Rightarrow> 'r BundleEntry list \<Rightarrow> 'r Bundle
    \<Rightarrow> string + bool \<times> 'r BundleEntry list \<times> 'r Bundle" where
  "historyLoop ans snapshotSupport since i [] entries firstSearchSet =
     Inr (False, entries, firstSearchSet)"
| "historyLoop ans snapshotSupport since i (resourceType # rest) entries firstSearchSet =
     (case queryHistory (answerHistory ans i resourceType since) of
        Inl err \<Rightarrow>
          if is410GoneError err
          then (if \<not> snapshotSupport
                then Inl (''410 Gone: history too old for '' @ resourceType @
                          '' and Snapshot Mode is disabled, cannot sync'')
                else Inr (True, [], firstSearchSet))
          else Inl (''failed to query '' @ resourceType @ '' history: '' @ err)
      | Inr (currEntries, currSearchSet) \<Rightarrow>
          historyLoop ans snapshotSupport since (Suc i) rest (entries @ currEntries)
            (if i = 0 then currSearchSet else firstSearchSet))"

text \<open>Snapshot mode: search results carry no request, one is added.\<close>

definition addRequestInfo :: "'r externals \<Rightarrow> string \<Rightarrow> 'r BundleEntry \<Rightarrow> 'r BundleEntry" where
  "addRequestInfo ext resourceType entry =
     (if Request entry = None
      then entry\<lparr>Request := Some \<lparr>Method = HTTPVerbPUT,
             Url = resourceType @ ''/'' @
               (case Resource entry of
                  None \<Rightarrow> []
                | Some r \<Rightarrow>
                    (case ExtractResourceInfo ext r of None \<Rightarrow> [] | Some info \<Rightarrow> ID info))\<rparr>\<rparr>
      else entry)"

fun snapshotLoop :: "'r externals \<Rightarrow> 'r answers \<Rightarrow> nat \<Rightarrow> string list
    \<Rightarrow> 'r BundleEntry list \<Rightarrow> 'r Bundle \<Rightarrow> string + 'r BundleEntry list \<times> 'r Bundle" where
  "snapshotLoop ext ans i [] entries firstSearchSet = Inr (entries, firstSearchSet)"
| "snapshotLoop ext ans i (resourceType # rest) entries firstSearchSet =
     (case query (answerSearch ans i resourceType) of
        Inl err \<Rightarrow> Inl (''failed to query '' @ resourceType @ '': '' @ err)
      | Inr (currEntries, currSearchSet) \<Rightarrow>
          snapshotLoop ext ans (Suc i) rest
            (entries @ map (addRequestInfo ext resourceType) currEntries)
            (if i = 0 then currSearchSet else firstSearchSet))"

text \<open>\<^verbatim>\<open>ensureParentOrganizationsMap\<close>.\<close>

definition ensureParentOrganizationsMap :: "'r externals \<Rightarrow> 'r answers \<Rightarrow> string
    \<Rightarrow> string + parentOrganizationMap" where
  "ensureParentOrganizationsMap ext ans ura =
     (case query (answerOrganizations ans) of
        Inl err \<Rightarrow> Inl err
      | Inr (orgEntries, searchSet) \<Rightarrow>
          (let parentOrganizationsMap = createOrganizationTree ext orgEntries in
           Inr (if ura \<noteq> []
                then filter (\<lambda>(parentOrg, linkedOrgs).
                        \<exists>u \<in> set (FilterIdentifiersBySystem ext (OrgIdentifier parentOrg)
                                     URANamingSystem). Value u = Some ura)
                      parentOrganizationsMap
                else parentOrganizationsMap)))"

text \<open>The loop that builds the transaction from the deduplicated entries.\<close>

fun buildTransactionLoop :: "'r externals \<Rightarrow> nat \<Rightarrow> 'r BundleEntry list \<Rightarrow> string list
    \<Rightarrow> parentOrganizationMap \<Rightarrow> 'r BundleEntry list \<Rightarrow> bool \<Rightarrow> string
    \<Rightarrow> jsonObject BundleEntry list \<times> DirectoryUpdateReport
    \<Rightarrow> jsonObject BundleEntry list \<times> DirectoryUpdateReport" where
  "buildTransactionLoop ext i [] allowed pom hcs allowDiscovery base st = st"
| "buildTransactionLoop ext i (entry # entries) allowed pom hcs allowDiscovery base (tx, report) =
     buildTransactionLoop ext (Suc i) entries allowed pom hcs allowDiscovery base
       (if Request entry = None
        then (tx, report\<lparr>Warnings := Warnings report @
                [''Skipping entry with no request: #'' @ strconv_Itoa i]\<rparr>)
        else (case buildUpdateTransaction ext tx entry allowed pom hcs allowDiscovery base of
                (tx', Inl err) \<Rightarrow>
                  (tx', report\<lparr>Warnings := Warnings report @
                     [''entry #'' @ strconv_Itoa i @ '': '' @ err]\<rparr>)
              | (tx', Inr resourceType) \<Rightarrow> (tx', report)))"

text \<open>\<^verbatim>\<open>discoverAndRegisterEndpoints\<close>: for one parent organization, the endpoints among
  the entries that it references, keyed by \<^verbatim>\<open>fullUrl\<close>; then their registration. (Both Go
  maps are ranged over in an unspecified order: the lists' here.)\<close>

fun referencedEndpoints :: "'r externals \<Rightarrow> Organization \<Rightarrow> 'r BundleEntry list
    \<Rightarrow> (string \<times> Endpoint) list \<Rightarrow> (string \<times> Endpoint) list" where
  "referencedEndpoints ext parentOrg [] endpoints = endpoints"
| "referencedEndpoints ext parentOrg (entry # entries) endpoints =
     referencedEndpoints ext parentOrg entries
       (case Resource entry of
          None \<Rightarrow> endpoints
        | Some r \<Rightarrow>
            (case UnmarshalEndpoint ext r of
               Inl err \<Rightarrow> endpoints
             | Inr endpoint \<Rightarrow>
                 (case EndpointId endpoint of
                    None \<Rightarrow> endpoints
                  | Some endpointID \<Rightarrow>
                      if (\<exists>parentEndpoint \<in> set (OrgEndpoint parentOrg).
                            Reference parentEndpoint \<noteq> None \<and>
                            endpointID = extractReferenceID ext (Reference parentEndpoint))
                      then (case FullUrl entry of
                              None \<Rightarrow> endpoints
                            | Some fullUrl \<Rightarrow> AList.update fullUrl endpoint endpoints)
                      else endpoints)))"

fun registerEndpoints :: "'r externals \<Rightarrow> string \<Rightarrow> (string \<times> Endpoint) list
    \<Rightarrow> Component \<times> DirectoryUpdateReport \<Rightarrow> Component \<times> DirectoryUpdateReport" where
  "registerEndpoints ext ura [] st = st"
| "registerEndpoints ext ura ((fullUrl, endpoint) # endpoints) (c, report) =
     registerEndpoints ext ura endpoints
       (if CodablesIncludesCode ext (PayloadType endpoint) PayloadCoding
        then (case registerAdministrationDirectory ext c (Address endpoint)
                     (directoryResourceTypes c) False fullUrl ura of
                Inl err \<Rightarrow>
                  (c, report\<lparr>Warnings := Warnings report @
                     [''failed to register discovered mCSD Directory at '' @
                      Address endpoint @ '': '' @ err]\<rparr>)
              | Inr c' \<Rightarrow> (c', report))
        else (c, report))"

fun discoverAndRegisterEndpoints :: "'r externals \<Rightarrow> 'r BundleEntry list
    \<Rightarrow> parentOrganizationMap \<Rightarrow> Component \<times> DirectoryUpdateReport
    \<Rightarrow> Component \<times> DirectoryUpdateReport" where
  "discoverAndRegisterEndpoints ext entries [] st = st"
| "discoverAndRegisterEndpoints ext entries ((parentOrg, linkedOrgs) # pom) st =
     discoverAndRegisterEndpoints ext entries pom
       (case FilterIdentifiersBySystem ext (OrgIdentifier parentOrg) URANamingSystem of
          [] \<Rightarrow> st
        | u # us \<Rightarrow>
            (case Value u of
               None \<Rightarrow> st
             | Some ura \<Rightarrow>
                 if OrgEndpoint parentOrg = [] then st
                 else registerEndpoints ext ura
                        (referencedEndpoints ext parentOrg entries []) st))"

text \<open>The count of the response entries of the transaction.\<close>

fun processResult :: "'r externals \<Rightarrow> nat \<Rightarrow> jsonObject BundleEntry list
    \<Rightarrow> DirectoryUpdateReport \<Rightarrow> DirectoryUpdateReport" where
  "processResult ext i [] report = report"
| "processResult ext i (entry # entries) report =
     processResult ext (Suc i) entries
       (case Response entry of
          None \<Rightarrow>
            report\<lparr>Warnings := Warnings report @
              [''Skipping entry with no response: #'' @ strconv_Itoa i]\<rparr>
        | Some response \<Rightarrow>
            if strings_HasPrefix (Status response) ''201''
            then report\<lparr>CountCreated := CountCreated report + 1\<rparr>
            else if strings_HasPrefix (Status response) ''200''
            then report\<lparr>CountUpdated := CountUpdated report + 1\<rparr>
            else if strings_HasPrefix (Status response) ''204''
            then report\<lparr>CountDeleted := CountDeleted report + 1\<rparr>
            else report\<lparr>Warnings := Warnings report @
                   [''Unknown HTTP response status '' @ Status response @ '' (url='' @
                    fmt_pointer ext (FullUrl entry) @ '')'']\<rparr>)"

text \<open>The pre-scan for Endpoint DELETEs: \<^verbatim>\<open>processEndpointDeletes\<close> on the deduplicated
  entries, for a discoverable directory.\<close>

definition preScan :: "'r externals \<Rightarrow> Component \<Rightarrow> bool \<Rightarrow> 'r BundleEntry list \<Rightarrow> Component" where
  "preScan ext c allowDiscovery entries =
     (if allowDiscovery
      then processEndpointDeletes c (deduplicateHistoryEntries ext entries) else c)"

text \<open>\<^verbatim>\<open>updateFromDirectory\<close> from the deduplication on (\<open>c\<close> is the component after
  the queries): the component after the call, the report and the error.\<close>

definition applyEntries :: "'r externals \<Rightarrow> 'r answers \<Rightarrow> Component \<Rightarrow> string \<Rightarrow> string list
    \<Rightarrow> bool \<Rightarrow> string \<Rightarrow> 'r BundleEntry list \<Rightarrow> 'r Bundle
    \<Rightarrow> Component \<times> DirectoryUpdateReport \<times> string option" where
  "applyEntries ext ans c fhirBaseURLRaw allowedResourceTypes allowDiscovery ura
       entries firstSearchSet =
     (let directoryKey = makeDirectoryKey fhirBaseURLRaw ura;
          deduplicatedEntries = deduplicateHistoryEntries ext entries;
          allHealthcareServices =
            filter (\<lambda>entry. case Resource entry of
                               None \<Rightarrow> False
                             | Some r \<Rightarrow> UnmarshalHealthcareService ext r) entries;
          c1 = preScan ext c allowDiscovery entries
      in
      case ensureParentOrganizationsMap ext ans ura of
        Inl err \<Rightarrow>
          (c1, emptyReport, Some (''failed to build parent organization map: '' @ err))
      | Inr parentOrganizationsMap \<Rightarrow>
     (case ValidateParentOrganizations ext parentOrganizationsMap of
        Some err \<Rightarrow>
          (c1, emptyReport,
           Some (''parent organization (one that supposedly has ura identifier - and only only) validation failed: '' @ err))
      | None \<Rightarrow>
     (case buildTransactionLoop ext 0 deduplicatedEntries allowedResourceTypes
             parentOrganizationsMap allHealthcareServices allowDiscovery fhirBaseURLRaw
             ([], emptyReport) of
        (tx, report) \<Rightarrow>
     (case (if allowDiscovery
            then discoverAndRegisterEndpoints ext entries parentOrganizationsMap (c1, report)
            else (c1, report)) of
        (c2, report2) \<Rightarrow>
     (if tx = [] then (c2, report2, None)
      else
     (case answerTransaction ans tx of
        Inl err \<Rightarrow>
          (c2, emptyReport,
           Some (''failed to apply mCSD update to query directory: '' @ err))
      | Inr txResult \<Rightarrow>
          (let report3 = processResult ext 0 (Entry txResult) report2;
               nextSyncTime =
                 (case Meta firstSearchSet of
                    None \<Rightarrow> localTime ans
                  | Some m \<Rightarrow>
                      (case MetaLastUpdated m of None \<Rightarrow> localTime ans | Some t \<Rightarrow> t))
           in (c2\<lparr>lastUpdateTimes := (lastUpdateTimes c2)(directoryKey \<mapsto> nextSyncTime)\<rparr>,
               report3, None))))))))"

text \<open>\<^verbatim>\<open>updateFromDirectory\<close>. (\<^verbatim>\<open>saveSyncState\<close> writes \<open>lastUpdateTimes\<close> to the state
  file and cannot fail the sync: the file is outside the model.)\<close>

definition updateFromDirectory :: "'r externals \<Rightarrow> 'r answers \<Rightarrow> Component \<Rightarrow> string
    \<Rightarrow> string list \<Rightarrow> bool \<Rightarrow> string \<Rightarrow> Component \<times> DirectoryUpdateReport \<times> string option" where
  "updateFromDirectory ext ans c fhirBaseURLRaw allowedResourceTypes allowDiscovery ura =
     (case url_Parse ext fhirBaseURLRaw of
        Inl err \<Rightarrow> (c, emptyReport, Some err)
      | Inr remoteURL \<Rightarrow>
     (case url_Parse ext (QueryDirectory (config c)) of
        Inl err \<Rightarrow> (c, emptyReport, Some err)
      | Inr queryURL \<Rightarrow>
     (let directoryKey = makeDirectoryKey fhirBaseURLRaw ura;
          lastUpdate = lastUpdateTimes c directoryKey;
          hasLastUpdate = (lastUpdate \<noteq> None);
          useHistoryMode = (if hasLastUpdate then True else \<not> SnapshotModeSupport (config c));
          useSnapshotMode0 = (if hasLastUpdate then False else SnapshotModeSupport (config c))
      in
      case (if useHistoryMode
            then historyLoop ans (SnapshotModeSupport (config c)) lastUpdate 0
                   allowedResourceTypes [] emptyBundle
            else Inr (False, [], emptyBundle)) of
        Inl err \<Rightarrow> (c, emptyReport, Some err)
      | Inr (fellBack, historyEntries, historyFirst) \<Rightarrow>
          if useSnapshotMode0 \<or> fellBack
          then (case snapshotLoop ext ans 0 allowedResourceTypes [] historyFirst of
                  Inl err \<Rightarrow> (c, emptyReport, Some err)
                | Inr (entries, firstSearchSet) \<Rightarrow>
                    applyEntries ext ans
                      (c\<lparr>lastUpdateTimes := (lastUpdateTimes c)(directoryKey := None)\<rparr>)
                      fhirBaseURLRaw allowedResourceTypes allowDiscovery ura
                      entries firstSearchSet)
          else applyEntries ext ans c fhirBaseURLRaw allowedResourceTypes allowDiscovery ura
                 historyEntries historyFirst)))"

subsection \<open>The run over all directories\<close>

text \<open>The body of the loop of \<^verbatim>\<open>update\<close> for the directory at index \<open>i\<close>: the component
  and the report map after it.\<close>

definition updateStep :: "'r externals \<Rightarrow> 'r answers \<Rightarrow> Component \<Rightarrow> UpdateReport \<Rightarrow> nat
    \<Rightarrow> Component \<times> UpdateReport" where
  "updateStep ext ans c result i =
     (let adminDirectory = administrationDirectories c ! i in
      case updateFromDirectory ext ans c (fhirBaseURL adminDirectory)
             (resourceTypes adminDirectory) (discover adminDirectory)
             (authoritativeUra adminDirectory) of
        (c', report, err) \<Rightarrow>
          (c', result(makeDirectoryKey (fhirBaseURL adminDirectory)
                        (authoritativeUra adminDirectory) \<mapsto>
                 (case err of
                    None \<Rightarrow> report
                  | Some e \<Rightarrow> report\<lparr>Errors := Errors report @ [e]\<rparr>))))"

text \<open>\<^verbatim>\<open>update\<close>: the loop \<^verbatim>\<open>for i := 0; i < len(c.administrationDirectories); i++\<close>,
  which reads the length of the registry anew at every round. \<open>world n\<close> is what the
  servers answer during round \<open>n\<close>. Discovery can add a directory in every round, so
  the loop need not end: a run that does not return is \<open>None\<close>.\<close>

partial_function (option) updateLoop :: "'r externals \<Rightarrow> (nat \<Rightarrow> 'r answers) \<Rightarrow> Component
    \<Rightarrow> UpdateReport \<Rightarrow> nat \<Rightarrow> (Component \<times> UpdateReport) option" where
  "updateLoop ext world c result i =
     (if i < length (administrationDirectories c)
      then (case updateStep ext (world i) c result i of
              (c', result') \<Rightarrow> updateLoop ext world c' result' (Suc i))
      else Some (c, result))"

declare updateLoop.simps [code]

definition update :: "'r externals \<Rightarrow> (nat \<Rightarrow> 'r answers) \<Rightarrow> Component
    \<Rightarrow> (Component \<times> UpdateReport) option" where
  "update ext world c = updateLoop ext world c Map.empty 0"

subsection \<open>Externals for the examples\<close>

text \<open>
  The examples below run the model on concrete inputs. There a resource is given by what
  the decoders return on it, and the other externals are simple stand-ins:
  \<^item> Modelled from the spec: \<^verbatim>\<open>libfhir.BuildSourceURL\<close> (not under src/), "the source URL
    is \<^verbatim>\<open>{sourceBaseURL}/{ResourceType}/{id}\<close>", with no error;
  \<^item> Modelled from the spec: \<^verbatim>\<open>libfhir.FilterIdentifiersBySystem\<close> and
    \<^verbatim>\<open>coding.CodablesIncludesCode\<close> (not under src/), the identifiers "in the URA naming
    system" and a payload type that "contains the mCSD-directory coding";
  \<^item> Modelled from the spec: the validator (not under src/), here one that accepts
    everything;
  \<^item> \<^verbatim>\<open>url.Parse\<close> on a plain \<^verbatim>\<open>http://host/path\<close> or \<^verbatim>\<open>https://host/path\<close> URL and on a
    string without a scheme; \<^verbatim>\<open>url.QueryEscape\<close> on ASCII.
\<close>

record doc =
  docInfo :: "ResourceInfo option"
  docOrganization :: "Organization option"
  docEndpoint :: "string + Endpoint"
  docHealthcareService :: bool
  docMap :: "string + jsonObject"

definition example_Parse :: "string \<Rightarrow> string + ParsedURL" where
  "example_Parse u =
     (if take 7 u = ''http://''
      then Inr \<lparr>Scheme = ''http'', Host = takeWhile (\<lambda>x. x \<noteq> CHR ''/'') (drop 7 u)\<rparr>
      else if take 8 u = ''https://''
      then Inr \<lparr>Scheme = ''https'', Host = takeWhile (\<lambda>x. x \<noteq> CHR ''/'') (drop 8 u)\<rparr>
      else Inr \<lparr>Scheme = [], Host = []\<rparr>)"

definition hex_char :: "nat \<Rightarrow> char" where
  "hex_char d = ''0123456789ABCDEF'' ! d"

definition example_escape_char :: "char \<Rightarrow> string" where
  "example_escape_char x =
     (let n = of_char x :: nat in
      if (48 \<le> n \<and> n \<le> 57) \<or> (65 \<le> n \<and> n \<le> 90) \<or> (97 \<le> n \<and> n \<le> 122)
         \<or> x = CHR ''-'' \<or> x = CHR ''_'' \<or> x = CHR ''.'' \<or> x = CHR ''~''
      then [x]
      else if x = CHR '' '' then ''+''
      else [CHR ''%'', hex_char (n div 16), hex_char (n mod 16)])"

definition example_QueryEscape :: "string \<Rightarrow> string" where
  "example_QueryEscape u = concat (map example_escape_char u)"

definition example_BuildSourceURL :: "string \<Rightarrow> string list \<Rightarrow> string + string" where
  "example_BuildSourceURL base parts = Inr (base @ concat (map (\<lambda>p. ''/'' @ p) parts))"

definition example_CodablesIncludesCode :: "CodeableConcept list \<Rightarrow> Coding \<Rightarrow> bool" where
  "example_CodablesIncludesCode concepts c =
     list_ex (\<lambda>concept. list_ex (\<lambda>x. x = c) (CodingList concept)) concepts"

definition exampleExternals :: "doc externals" where
  "exampleExternals =
     \<lparr>ExtractResourceInfo = docInfo,
      UnmarshalOrganization = docOrganization,
      UnmarshalEndpoint = docEndpoint,
      UnmarshalHealthcareService = docHealthcareService,
      UnmarshalMap = docMap,
      FilterIdentifiersBySystem = (\<lambda>identifiers system.
         filter (\<lambda>i. System i = Some system) identifiers),
      BuildSourceURL = example_BuildSourceURL,
      ValidateUpdate = (\<lambda>allowed r pom hcs. None),
      ValidateParentOrganizations = (\<lambda>pom. None),
      CodablesIncludesCode = example_CodablesIncludesCode,
      extractReferenceID = (\<lambda>r. case r of
                                    None \<Rightarrow> []
                                  | Some x \<Rightarrow> last (strings_Split x (CHR ''/''))),
      fmt_pointer = (\<lambda>p. case p of None \<Rightarrow> ''<nil>'' | Some x \<Rightarrow> ''0xc000010000''),
      url_Parse = example_Parse,
      url_QueryEscape = example_QueryEscape\<rparr>"

text \<open>What the decoders return on three kinds of JSON documents: one with nothing but
  \<^verbatim>\<open>resourceType\<close>, \<^verbatim>\<open>id\<close> and \<^verbatim>\<open>meta.lastUpdated\<close>; an Organization, given by
  its fields; an Endpoint, given by its fields. (\<^verbatim>\<open>json.Unmarshal\<close> skips the fields that
  the target type does not have, so each document decodes into every type.)\<close>

definition infoDoc :: "ResourceInfo \<Rightarrow> doc" where
  "infoDoc info =
     \<lparr>docInfo = Some info,
      docOrganization = Some \<lparr>OrgId = Some (ID info), OrgIdentifier = [], PartOf = None,
                               OrgEndpoint = []\<rparr>,
      docEndpoint = Inr \<lparr>EndpointId = Some (ID info), Address = [], PayloadType = []\<rparr>,
      docHealthcareService = True,
      docMap = Inr [(''resourceType'', JString (ResourceType info)),
                    (''id'', JString (ID info))]\<rparr>"

definition jsonIdentifier :: "Identifier \<Rightarrow> json" where
  "jsonIdentifier i =
     JObject ((case System i of None \<Rightarrow> [] | Some x \<Rightarrow> [(''system'', JString x)]) @
              (case Value i of None \<Rightarrow> [] | Some x \<Rightarrow> [(''value'', JString x)]))"

definition jsonReference :: "Reference \<Rightarrow> json" where
  "jsonReference r =
     JObject (case Reference r of None \<Rightarrow> [] | Some x \<Rightarrow> [(''reference'', JString x)])"

definition organizationDoc :: "Organization \<Rightarrow> doc" where
  "organizationDoc org =
     \<lparr>docInfo = Some \<lparr>ID = (case OrgId org of None \<Rightarrow> [] | Some i \<Rightarrow> i),
                       ResourceType = ''Organization'', LastUpdated = None\<rparr>,
      docOrganization = Some org,
      docEndpoint = Inr \<lparr>EndpointId = OrgId org, Address = [], PayloadType = []\<rparr>,
      docHealthcareService = True,
      docMap = Inr ([(''resourceType'', JString ''Organization'')] @
                    (case OrgId org of None \<Rightarrow> [] | Some i \<Rightarrow> [(''id'', JString i)]) @
                    [(''identifier'', JArray (map jsonIdentifier (OrgIdentifier org)))] @
                    (case PartOf org of None \<Rightarrow> [] | Some r \<Rightarrow> [(''partOf'', jsonReference r)]) @
                    [(''endpoint'', JArray (map jsonReference (OrgEndpoint org)))])\<rparr>"

definition jsonCoding :: "Coding \<Rightarrow> json" where
  "jsonCoding c =
     JObject ((case CodingSystem c of None \<Rightarrow> [] | Some x \<Rightarrow> [(''system'', JString x)]) @
              (case Code c of None \<Rightarrow> [] | Some x \<Rightarrow> [(''code'', JString x)]))"

definition endpointDoc :: "Endpoint \<Rightarrow> doc" where
  "endpointDoc endpoint =
     \<lparr>docInfo = Some \<lparr>ID = (case EndpointId endpoint of None \<Rightarrow> [] | Some i \<Rightarrow> i),
                       ResourceType = ''Endpoint'', LastUpdated = None\<rparr>,
      docOrganization = Some \<lparr>OrgId = EndpointId endpoint, OrgIdentifier = [],
                               PartOf = None, OrgEndpoint = []\<rparr>,
      docEndpoint = Inr endpoint,
      docHealthcareService = True,
      docMap = Inr ([(''resourceType'', JString ''Endpoint'')] @
                    (case EndpointId endpoint of None \<Rightarrow> [] | Some i \<Rightarrow> [(''id'', JString i)]) @
                    [(''address'', JString (Address endpoint)),
                     (''payloadType'', JArray (map (\<lambda>concept.
                        JObject [(''coding'', JArray (map jsonCoding (CodingList concept)))])
                        (PayloadType endpoint)))])\<rparr>"

subsection \<open>Notions for the proofs\<close>

text \<open>What one entry does to the winner so far of its resource id.\<close>

definition keep :: "'r externals \<Rightarrow> 'r BundleEntry option \<Rightarrow> 'r BundleEntry
    \<Rightarrow> 'r BundleEntry option" where
  "keep ext cur e =
     (case cur of
        None \<Rightarrow> Some e
      | Some ex \<Rightarrow> if isMoreRecent ext e ex then Some e else Some ex)"

text \<open>The invariant of the loop of \<^verbatim>\<open>deduplicateHistoryEntries\<close>.\<close>

definition dedupInv :: "'r externals
    \<Rightarrow> (string \<times> 'r BundleEntry) list \<times> 'r BundleEntry list \<Rightarrow> bool" where
  "dedupInv ext st =
     (distinct (map fst (fst st)) \<and>
      (\<forall>k e. (k, e) \<in> set (fst st) \<longrightarrow> k \<noteq> [] \<and> entryResourceID ext e = k) \<and>
      (\<forall>e \<in> set (snd st). entryResourceID ext e = []))"

text \<open>Two entries for the resource id \<open>1\<close>: a DELETE (no resource), and an update
  whose resource has the \<^verbatim>\<open>meta.lastUpdated\<close> instant \<open>t\<close>.\<close>

definition deleteOrg1 :: "doc BundleEntry" where
  "deleteOrg1 =
     \<lparr>FullUrl = Some ''http://example.org/fhir/Organization/1'', Resource = None,
      Request = Some \<lparr>Method = HTTPVerbDELETE, Url = ''Organization/1''\<rparr>,
      Response = None\<rparr>"

definition putOrg1 :: "time \<Rightarrow> doc BundleEntry" where
  "putOrg1 t =
     \<lparr>FullUrl = Some ''http://example.org/fhir/Organization/1'',
      Resource = Some (infoDoc \<lparr>ID = ''1'', ResourceType = ''Organization'',
                                LastUpdated = Some t\<rparr>),
      Request = Some \<lparr>Method = HTTPVerbPUT, Url = ''Organization/1''\<rparr>,
      Response = None\<rparr>"

text \<open>The spec's "equals E, ignoring one trailing slash".\<close>

definition sameIgnoringOneSlash :: "string \<Rightarrow> string \<Rightarrow> bool" where
  "sameIgnoringOneSlash a b = (a = b \<or> a = b @ ''/'' \<or> a @ ''/'' = b)"

text \<open>A component whose configuration excludes two base URLs, with an empty registry.\<close>

definition excludingConfig :: Config where
  "excludingConfig =
     \<lparr>AdministrationDirectories = [], QueryDirectory = ''http://localhost:8080/fhir'',
      ExcludeAdminDirectories = [''http://example.com/fhir'', ''not-a-valid-url''],
      DirectoryResourceTypes = defaultDirectoryResourceTypes,
      StateFile = [], SnapshotModeSupport = False\<rparr>"

definition excludingComponent :: Component where
  "excludingComponent =
     \<lparr>config = excludingConfig, administrationDirectories = [],
      directoryResourceTypes = defaultDirectoryResourceTypes, lastUpdateTimes = Map.empty\<rparr>"

text \<open>A component as \<^verbatim>\<open>New\<close> makes it from a configuration with one root directory, and
  two entries of a root's feed for the Endpoint \<open>1\<close>: an update, and a DELETE whose
  \<^verbatim>\<open>fullUrl\<close> is present but empty.\<close>

definition rootConfig :: Config where
  "rootConfig =
     \<lparr>AdministrationDirectories = [(''lrza'', ''http://root.example.org/fhir'')],
      QueryDirectory = ''http://localhost:8080/fhir'',
      ExcludeAdminDirectories = [],
      DirectoryResourceTypes = defaultDirectoryResourceTypes,
      StateFile = [], SnapshotModeSupport = True\<rparr>"

definition rootDirectory :: administrationDirectory where
  "rootDirectory =
     \<lparr>fhirBaseURL = ''http://root.example.org/fhir'',
      resourceTypes = rootDirectoryResourceTypes, discover = True,
      sourceURL = [], authoritativeUra = []\<rparr>"

definition rootComponent :: Component where
  "rootComponent =
     \<lparr>config = rootConfig, administrationDirectories = [rootDirectory],
      directoryResourceTypes = defaultDirectoryResourceTypes, lastUpdateTimes = Map.empty\<rparr>"

definition putEndpoint1 :: "doc BundleEntry" where
  "putEndpoint1 =
     \<lparr>FullUrl = Some ''http://root.example.org/fhir/Endpoint/1'',
      Resource = Some (infoDoc \<lparr>ID = ''1'', ResourceType = ''Endpoint'',
                                LastUpdated = Some 100\<rparr>),
      Request = Some \<lparr>Method = HTTPVerbPUT, Url = ''Endpoint/1''\<rparr>,
      Response = None\<rparr>"

definition deleteEndpoint1 :: "doc BundleEntry" where
  "deleteEndpoint1 =
     \<lparr>FullUrl = Some [], Resource = None,
      Request = Some \<lparr>Method = HTTPVerbDELETE, Url = ''Endpoint/1''\<rparr>,
      Response = None\<rparr>"

text \<open>All the pages of an answer were fetched, and their entries.\<close>

fun allPages :: "(string + 'r Bundle) list \<Rightarrow> 'r Bundle list option" where
  "allPages [] = Some []"
| "allPages (Inl err # pages) = None"
| "allPages (Inr b # pages) = (case allPages pages of None \<Rightarrow> None | Some bs \<Rightarrow> Some (b # bs))"

text \<open>The answer to a search with one page of exactly 1000 entries.\<close>

definition fullPage :: "doc searchAnswer" where
  "fullPage = \<lparr>firstPage = Inr \<lparr>Entry = replicate 1000 deleteOrg1, Meta = None\<rparr>,
                nextPages = []\<rparr>"

text \<open>The invariant of the index of organizations: one pair per id, each organization
  under its own id.\<close>

definition orgMapInv :: "(string \<times> Organization) list \<Rightarrow> bool" where
  "orgMapInv orgMap =
     (distinct (map fst orgMap) \<and> (\<forall>k org. (k, org) \<in> set orgMap \<longrightarrow> OrgId org = Some k))"

text \<open>Three organizations: \<open>A\<close> and \<open>B\<close> carry a URA, \<open>B\<close> is part of \<open>A\<close>, and \<open>C\<close>,
  which carries none, is part of \<open>B\<close>; and the search result that lists them.\<close>

definition orgA :: Organization where
  "orgA = \<lparr>OrgId = Some ''A'',
           OrgIdentifier = [\<lparr>System = Some URANamingSystem, Value = Some ''100''\<rparr>],
           PartOf = None, OrgEndpoint = []\<rparr>"

definition orgB :: Organization where
  "orgB = \<lparr>OrgId = Some ''B'',
           OrgIdentifier = [\<lparr>System = Some URANamingSystem, Value = Some ''200''\<rparr>],
           PartOf = Some \<lparr>Reference = Some ''Organization/A''\<rparr>, OrgEndpoint = []\<rparr>"

definition orgC :: Organization where
  "orgC = \<lparr>OrgId = Some ''C'', OrgIdentifier = [],
           PartOf = Some \<lparr>Reference = Some ''Organization/B''\<rparr>, OrgEndpoint = []\<rparr>"

definition searchEntry :: "doc \<Rightarrow> doc BundleEntry" where
  "searchEntry r = \<lparr>FullUrl = None, Resource = Some r, Request = None, Response = None\<rparr>"

definition nestedOrganizations :: "doc BundleEntry list" where
  "nestedOrganizations = map (\<lambda>org. searchEntry (organizationDoc org)) [orgA, orgB, orgC]"

text \<open>The spec's "an Endpoint resource whose payloadType contains the mCSD-directory
  coding", for the resource \<open>r\<close> of an entry.\<close>

definition isDirectoryEndpoint :: "'r externals \<Rightarrow> 'r \<Rightarrow> bool" where
  "isDirectoryEndpoint ext r =
     ((case UnmarshalMap ext r of
         Inl err \<Rightarrow> False
       | Inr resource \<Rightarrow> map_of resource ''resourceType'' = Some (JString ''Endpoint''))
      \<and> (case UnmarshalEndpoint ext r of
            Inl err \<Rightarrow> False
          | Inr endpoint \<Rightarrow> CodablesIncludesCode ext (PayloadType endpoint) PayloadCoding))"

text \<open>An entry is a DELETE; the resource of an entry is a directory Endpoint.\<close>

definition isDeleteEntry :: "'r BundleEntry \<Rightarrow> bool" where
  "isDeleteEntry entry =
     (case Request entry of None \<Rightarrow> False | Some rq \<Rightarrow> Method rq = HTTPVerbDELETE)"


text \<open>Entries for the examples: an Endpoint with the mCSD-directory payload type and
  the Organization \<open>A\<close>, as a root directory lists them, and the Organization \<open>C\<close>, as
  a provider directory lists it.\<close>

definition directoryEndpoint :: Endpoint where
  "directoryEndpoint =
     \<lparr>EndpointId = Some ''ep-1'', Address = ''https://directory.example.org/fhir'',
      PayloadType = [\<lparr>CodingList = [PayloadCoding]\<rparr>]\<rparr>"

definition putDirectoryEndpoint :: "doc BundleEntry" where
  "putDirectoryEndpoint =
     \<lparr>FullUrl = Some ''http://root.example.org/fhir/Endpoint/ep-1'',
      Resource = Some (endpointDoc directoryEndpoint),
      Request = Some \<lparr>Method = HTTPVerbPUT, Url = ''Endpoint/ep-1''\<rparr>,
      Response = None\<rparr>"

definition putOrgA :: "doc BundleEntry" where
  "putOrgA =
     \<lparr>FullUrl = Some ''http://root.example.org/fhir/Organization/A'',
      Resource = Some (organizationDoc orgA),
      Request = Some \<lparr>Method = HTTPVerbPUT, Url = ''Organization/A''\<rparr>,
      Response = None\<rparr>"

definition putOrgC :: "doc BundleEntry" where
  "putOrgC =
     \<lparr>FullUrl = Some ''http://dir.example.org/fhir/Organization/C'',
      Resource = Some (organizationDoc orgC),
      Request = Some \<lparr>Method = HTTPVerbPUT, Url = ''Organization/C''\<rparr>,
      Response = None\<rparr>"

text \<open>A component with one provider directory, a cursor entry for it, and snapshot mode
  supported or not; answers of one page, and a search that fails.\<close>

definition providerDirectory :: administrationDirectory where
  "providerDirectory =
     \<lparr>fhirBaseURL = ''http://dir.example.org/fhir'', resourceTypes = [''Organization''],
      discover = False, sourceURL = ''http://root.example.org/fhir/Endpoint/ep-1'',
      authoritativeUra = ''100''\<rparr>"

definition providerComponent :: "bool \<Rightarrow> Component" where
  "providerComponent snapshotSupport =
     \<lparr>config = \<lparr>AdministrationDirectories = [],
                 QueryDirectory = ''http://localhost:8080/fhir'',
                 ExcludeAdminDirectories = [],
                 DirectoryResourceTypes = defaultDirectoryResourceTypes,
                 StateFile = [], SnapshotModeSupport = snapshotSupport\<rparr>,
      administrationDirectories = [providerDirectory],
      directoryResourceTypes = defaultDirectoryResourceTypes,
      lastUpdateTimes = [''http://dir.example.org/fhir|100'' \<mapsto> ''2025-01-01T00:00:00Z'']\<rparr>"

definition onePage :: "doc BundleEntry list \<Rightarrow> string option \<Rightarrow> doc searchAnswer" where
  "onePage entries lastUpdated =
     \<lparr>firstPage = Inr \<lparr>Entry = entries, Meta = Some \<lparr>MetaLastUpdated = lastUpdated\<rparr>\<rparr>,
      nextPages = []\<rparr>"

definition failedSearch :: "string \<Rightarrow> doc searchAnswer" where
  "failedSearch err = \<lparr>firstPage = Inl err, nextPages = []\<rparr>"


definition created :: "jsonObject Bundle" where
  "created = \<lparr>Entry = [\<lparr>FullUrl = None, Resource = None, Request = None,
                         Response = Some \<lparr>Status = ''201 Created''\<rparr>\<rparr>],
              Meta = None\<rparr>"

text \<open>History is gone (410); the snapshot lists nothing and the query for the
  organizations fails.\<close>

definition goneAnswers :: "doc answers" where
  "goneAnswers =
     \<lparr>answerHistory = (\<lambda>i resourceType since. failedSearch ''unexpected status 410 Gone''),
      answerSearch = (\<lambda>i resourceType. onePage [] None),
      answerOrganizations = failedSearch ''connection refused'',
      answerTransaction = (\<lambda>tx. Inl ''connection refused''),
      localTime = ''2025-06-01T00:00:00Z''\<rparr>"


text \<open>A root directory that was synced before. Its feed: an Organization with URA 100 that
  references the mCSD directory Endpoint \<^verbatim>\<open>ep-1\<close>, that Endpoint, and a DELETE of an
  Endpoint with an empty \<^verbatim>\<open>fullUrl\<close>. \<open>discoveredDirectory\<close> is the registry entry that
  discovery makes of the Endpoint.\<close>

definition rootOrgA :: Organization where
  "rootOrgA = orgA\<lparr>OrgEndpoint := [\<lparr>Reference = Some ''Endpoint/ep-1''\<rparr>]\<rparr>"

definition putRootOrgA :: "doc BundleEntry" where
  "putRootOrgA =
     \<lparr>FullUrl = Some ''http://root.example.org/fhir/Organization/A'',
      Resource = Some (organizationDoc rootOrgA),
      Request = Some \<lparr>Method = HTTPVerbPUT, Url = ''Organization/A''\<rparr>,
      Response = None\<rparr>"

definition listedRootOrgA :: "doc BundleEntry" where
  "listedRootOrgA =
     \<lparr>FullUrl = Some ''http://root.example.org/fhir/Organization/A'',
      Resource = Some (organizationDoc rootOrgA), Request = None, Response = None\<rparr>"

definition rootAnswers :: "doc answers" where
  "rootAnswers =
     \<lparr>answerHistory = (\<lambda>i resourceType since.
         if resourceType = ''Organization'' then onePage [putRootOrgA] None
         else onePage [putDirectoryEndpoint, deleteEndpoint1] None),
      answerSearch = (\<lambda>i resourceType. onePage [] None),
      answerOrganizations = onePage [listedRootOrgA] None,
      answerTransaction = (\<lambda>tx. Inr created),
      localTime = ''2025-06-01T00:00:00Z''\<rparr>"

definition syncedRootComponent :: Component where
  "syncedRootComponent =
     rootComponent\<lparr>lastUpdateTimes :=
       [''http://root.example.org/fhir'' \<mapsto> ''2025-01-01T00:00:00Z'']\<rparr>"

definition discoveredDirectory :: administrationDirectory where
  "discoveredDirectory =
     \<lparr>fhirBaseURL = ''https://directory.example.org/fhir'',
      resourceTypes = defaultDirectoryResourceTypes, discover = False,
      sourceURL = ''http://root.example.org/fhir/Endpoint/ep-1'',
      authoritativeUra = ''100''\<rparr>"

text \<open>A run in which no round removes a registry entry at or before the round's own index
  (\<open>steadyRun ext world c result i out\<close>: from the state \<open>c\<close>, \<open>result\<close> before round
  \<open>i\<close>, the loop of \<^verbatim>\<open>update\<close> ends with \<open>out\<close>).\<close>

inductive steadyRun :: "'r externals \<Rightarrow> (nat \<Rightarrow> 'r answers) \<Rightarrow> Component \<Rightarrow> UpdateReport
    \<Rightarrow> nat \<Rightarrow> Component \<times> UpdateReport \<Rightarrow> bool" for ext world where
  steadyEnd: "\<not> i < length (administrationDirectories c)
     \<Longrightarrow> steadyRun ext world c result i (c, result)"
| steadyStep: "i < length (administrationDirectories c)
     \<Longrightarrow> updateStep ext (world i) c result i = (c1, result1)
     \<Longrightarrow> take (Suc i) (administrationDirectories c1) = take (Suc i) (administrationDirectories c)
     \<Longrightarrow> steadyRun ext world c1 result1 (Suc i) out
     \<Longrightarrow> steadyRun ext world c result i out"

definition directoryKey :: "administrationDirectory \<Rightarrow> string" where
  "directoryKey d = makeDirectoryKey (fhirBaseURL d) (authoritativeUra d)"

text \<open>The same root without the DELETE in its feed, and the component after the root's
  round: discovery has appended the directory of \<^verbatim>\<open>ep-1\<close> behind the root.\<close>

definition discoveryAnswers :: "doc answers" where
  "discoveryAnswers =
     \<lparr>answerHistory = (\<lambda>i resourceType since.
         if resourceType = ''Organization'' then onePage [putRootOrgA] None
         else onePage [putDirectoryEndpoint] None),
      answerSearch = (\<lambda>i resourceType. onePage [] None),
      answerOrganizations = onePage [listedRootOrgA] None,
      answerTransaction = (\<lambda>tx. Inr created),
      localTime = ''2025-06-01T00:00:00Z''\<rparr>"

definition discoveredComponent :: Component where
  "discoveredComponent =
     syncedRootComponent\<lparr>administrationDirectories := [rootDirectory, discoveredDirectory],
       lastUpdateTimes := [''http://root.example.org/fhir'' \<mapsto> ''2025-06-01T00:00:00Z'']\<rparr>"







definition nextSyncTime :: "'r answers \<Rightarrow> 'r Bundle \<Rightarrow> string" where
  "nextSyncTime ans firstSearchSet =
     (case Meta firstSearchSet of
        None \<Rightarrow> localTime ans
      | Some m \<Rightarrow> (case MetaLastUpdated m of None \<Rightarrow> localTime ans | Some t \<Rightarrow> t))"



section \<open>Properties\<close>

subsection \<open>History deduplication (C1)\<close>

lemma in_set_updateD: "(a, b) \<in> set (AList.update k v al) \<Longrightarrow> (a, b) = (k, v) \<or> (a, b) \<in> set al"
  by (induction al) (auto split: if_splits)

lemma keep_Some: "keep ext (Some w) e = (if isMoreRecent ext e w then Some e else Some w)"
  by (simp add: keep_def)

lemma dedupStep_inv: "dedupInv ext st \<Longrightarrow> dedupInv ext (dedupStep ext e st)"
  unfolding dedupInv_def dedupStep_def Let_def
  by (auto simp: distinct_update split: option.splits dest!: in_set_updateD)

lemma dedupStep_lookup:
  "map_of (fst (dedupStep ext e st)) k =
     (if k \<noteq> [] \<and> entryResourceID ext e = k then keep ext (map_of (fst st) k) e else map_of (fst st) k)"
  unfolding dedupStep_def Let_def keep_def
  by (auto simp: update_conv' split: option.splits)

lemma dedupLoop_inv: "dedupInv ext st \<Longrightarrow> dedupInv ext (dedupLoop ext es st)"
  by (induction es arbitrary: st) (simp_all add: dedupStep_inv)

lemma dedupLoop_lookup:
  "k \<noteq> [] \<Longrightarrow> map_of (fst (dedupLoop ext es st)) k =
     foldl (keep ext) (map_of (fst st) k) (filter (\<lambda>e. entryResourceID ext e = k) es)"
  by (induction es arbitrary: st) (simp_all add: dedupStep_lookup)

lemma filter_map_snd_distinct:
  "distinct (map fst m) \<Longrightarrow> (\<forall>k' e. (k', e) \<in> set m \<longrightarrow> f e = k') \<Longrightarrow>
   filter (\<lambda>e. f e = k) (map snd m) = (case map_of m k of None \<Rightarrow> [] | Some e \<Rightarrow> [e])"
proof (induction m)
  case Nil
  then show ?case by simp
next
  case (Cons p m)
  obtain k' e where p: "p = (k', e)" by (cases p)
  have fe: "f e = k'" using Cons.prems(2) p by simp
  have IH: "filter (\<lambda>e. f e = k) (map snd m) = (case map_of m k of None \<Rightarrow> [] | Some e \<Rightarrow> [e])"
    using Cons by simp
  show ?case
  proof (cases "k' = k")
    case True
    then have "map_of m k = None" using Cons.prems(1) p
      by (simp add: map_of_eq_None_iff)
    then show ?thesis using True p fe IH by simp
  next
    case False
    then show ?thesis using p fe IH by simp
  qed
qed

lemma foldl_keep_Some: "foldl (keep ext) (Some w) es \<noteq> None"
  by (induction es arbitrary: w) (auto simp: keep_Some)

lemma foldl_keep_zero:
  "getLastUpdated ext w = 0 \<Longrightarrow> foldl (keep ext) (Some w) es = Some w"
  by (induction es) (auto simp: keep_Some isMoreRecent_def Let_def)

lemma foldl_keep_max:
  "getLastUpdated ext w \<noteq> 0 \<Longrightarrow>
   \<exists>w'. foldl (keep ext) (Some w) es = Some w' \<and> w' \<in> set (w # es) \<and> getLastUpdated ext w' \<noteq> 0 \<and>
     (\<forall>e \<in> set (w # es). getLastUpdated ext e \<noteq> 0 \<longrightarrow> getLastUpdated ext e \<le> getLastUpdated ext w')"
proof (induction es arbitrary: w)
  case Nil
  then show ?case by simp
next
  case (Cons e es)
  show ?case
  proof (cases "isMoreRecent ext e w")
    case True
    then have e: "getLastUpdated ext e \<noteq> 0" "getLastUpdated ext w < getLastUpdated ext e"
      by (auto simp: isMoreRecent_def Let_def split: if_splits)
    from Cons.IH[OF e(1)] obtain w' where w': "foldl (keep ext) (Some e) es = Some w'"
      "w' \<in> set (e # es)" "getLastUpdated ext w' \<noteq> 0"
      "\<forall>x \<in> set (e # es). getLastUpdated ext x \<noteq> 0 \<longrightarrow> getLastUpdated ext x \<le> getLastUpdated ext w'"
      by blast
    have "getLastUpdated ext w \<le> getLastUpdated ext w'" using w'(4) e by force
    then show ?thesis using True w' by (auto simp: keep_Some)
  next
    case False
    then have e: "getLastUpdated ext e \<noteq> 0 \<longrightarrow> getLastUpdated ext e \<le> getLastUpdated ext w"
      using Cons.prems by (auto simp: isMoreRecent_def Let_def split: if_splits)
    from Cons.IH[OF Cons.prems] obtain w' where w': "foldl (keep ext) (Some w) es = Some w'"
      "w' \<in> set (w # es)" "getLastUpdated ext w' \<noteq> 0"
      "\<forall>x \<in> set (w # es). getLastUpdated ext x \<noteq> 0 \<longrightarrow> getLastUpdated ext x \<le> getLastUpdated ext w'"
      by blast
    have "getLastUpdated ext w \<le> getLastUpdated ext w'" using w'(4) Cons.prems by force
    then show ?thesis using False w' e by (auto simp: keep_Some)
  qed
qed


lemma dedup_filter:
  assumes "k \<noteq> []"
  shows "filter (\<lambda>e. entryResourceID ext e = k) (deduplicateHistoryEntries ext entries) =
     (case foldl (keep ext) None (filter (\<lambda>e. entryResourceID ext e = k) entries) of
        None \<Rightarrow> [] | Some e \<Rightarrow> [e])"
proof -
  let ?st = "dedupLoop ext entries ([], [])"
  have inv: "dedupInv ext ?st"
    by (rule dedupLoop_inv) (simp add: dedupInv_def)
  have tail: "filter (\<lambda>e. entryResourceID ext e = k) (snd ?st) = []"
    using inv assms by (auto simp: dedupInv_def filter_empty_conv)
  have "filter (\<lambda>e. entryResourceID ext e = k) (map snd (fst ?st)) =
      (case map_of (fst ?st) k of None \<Rightarrow> [] | Some e \<Rightarrow> [e])"
    by (rule filter_map_snd_distinct) (use inv in \<open>auto simp: dedupInv_def\<close>)
  moreover have "map_of (fst ?st) k =
      foldl (keep ext) None (filter (\<lambda>e. entryResourceID ext e = k) entries)"
    using dedupLoop_lookup[OF assms, of ext entries "([], [])"] by simp
  ultimately show ?thesis
    using tail by (simp add: deduplicateHistoryEntries_def Let_def)
qed

text \<open>
  C1, as the code has it. For every input list and every resource id \<open>k\<close> that occurs in
  it (\<open>first\<close> is the first entry with that id, \<open>others\<close> the later ones),
  deduplication keeps exactly one entry \<open>w\<close> for the id. When the first entry carries no
  timestamp (a DELETE has none), it is the one kept, whatever follows. Otherwise the entry
  kept carries a timestamp, and no timestamped entry for the id is more recent. So a DELETE
  is kept exactly when it is the first entry for its id.
\<close>

theorem dedup_keeps_first_or_latest:
  assumes "k \<noteq> []"
    and "filter (\<lambda>e. entryResourceID ext e = k) entries = first # others"
  shows "\<exists>w. filter (\<lambda>e. entryResourceID ext e = k) (deduplicateHistoryEntries ext entries) = [w]
      \<and> w \<in> set (first # others)
      \<and> (getLastUpdated ext first = 0 \<longrightarrow> w = first)
      \<and> (getLastUpdated ext first \<noteq> 0 \<longrightarrow>
           getLastUpdated ext w \<noteq> 0 \<and>
           (\<forall>e \<in> set (first # others).
              getLastUpdated ext e \<noteq> 0 \<longrightarrow> getLastUpdated ext e \<le> getLastUpdated ext w))
      \<and> (Resource w = None \<or> Resource first = None \<longrightarrow> w = first)"
proof -
  have f: "filter (\<lambda>e. entryResourceID ext e = k) (deduplicateHistoryEntries ext entries) =
      (case foldl (keep ext) (Some first) others of None \<Rightarrow> [] | Some e \<Rightarrow> [e])"
    using dedup_filter[OF assms(1), of ext entries] assms(2) by (simp add: keep_def)
  show ?thesis
  proof (cases "getLastUpdated ext first = 0")
    case True
    then have "foldl (keep ext) (Some first) others = Some first"
      by (rule foldl_keep_zero)
    then show ?thesis using f True by simp
  next
    case False
    from foldl_keep_max[OF False, of others] obtain w where w:
      "foldl (keep ext) (Some first) others = Some w" "w \<in> set (first # others)"
      "getLastUpdated ext w \<noteq> 0"
      "\<forall>e \<in> set (first # others).
          getLastUpdated ext e \<noteq> 0 \<longrightarrow> getLastUpdated ext e \<le> getLastUpdated ext w"
      by blast
    have r1: "Resource w \<noteq> None" using w(3) by (auto simp: getLastUpdated_def split: option.splits)
    have r2: "Resource first \<noteq> None" using False by (auto simp: getLastUpdated_def split: option.splits)
    show ?thesis using f w False r1 r2 by auto
  qed
qed

lemma example_ids:
  "entryResourceID exampleExternals deleteOrg1 = ''1''"
  "entryResourceID exampleExternals (putOrg1 t) = ''1''"
  by (simp_all add: entryResourceID_def extractResourceIDFromURL_def deleteOrg1_def
      putOrg1_def exampleExternals_def infoDoc_def)

lemma example_times:
  "getLastUpdated exampleExternals deleteOrg1 = 0"
  "getLastUpdated exampleExternals (putOrg1 t) = t"
  by (simp_all add: getLastUpdated_def deleteOrg1_def putOrg1_def exampleExternals_def
      infoDoc_def)

text \<open>
  C1 as stated fails: in the feed \<^verbatim>\<open>[DELETE Organization/1, PUT Organization/1]\<close>,
  where the update carries a timestamp, the DELETE is kept, although it is neither the
  only entry for the id nor the last one, and the timestamped update is dropped.
\<close>

theorem dedup_delete_first_wins_counterexample:
  "deduplicateHistoryEntries exampleExternals [deleteOrg1, putOrg1 100] = [deleteOrg1]
   \<and> entryResourceID exampleExternals deleteOrg1 = ''1''
   \<and> entryResourceID exampleExternals (putOrg1 100) = ''1''
   \<and> Resource deleteOrg1 = None
   \<and> Resource (putOrg1 100) \<noteq> None
   \<and> getLastUpdated exampleExternals (putOrg1 100) = 100
   \<and> last [deleteOrg1, putOrg1 100] \<noteq> deleteOrg1"
  by (simp add: deduplicateHistoryEntries_def dedupStep_def Let_def example_ids example_times
      isMoreRecent_def)
     (simp add: deleteOrg1_def putOrg1_def)

text \<open>The theorem at the feed of two updates and a DELETE: the later update is kept.\<close>

theorem dedup_keeps_first_or_latest_witness:
  "filter (\<lambda>e. entryResourceID exampleExternals e = ''1'')
     (deduplicateHistoryEntries exampleExternals [putOrg1 100, putOrg1 200, deleteOrg1])
   = [putOrg1 200]"
proof -
  have h: "filter (\<lambda>e. entryResourceID exampleExternals e = ''1'')
      [putOrg1 100, putOrg1 200, deleteOrg1] = putOrg1 100 # [putOrg1 200, deleteOrg1]"
    by (simp add: example_ids)
  have k: "''1'' \<noteq> ([] :: string)" by simp
  from dedup_keeps_first_or_latest[OF k h] obtain w where w:
    "filter (\<lambda>e. entryResourceID exampleExternals e = ''1'')
       (deduplicateHistoryEntries exampleExternals [putOrg1 100, putOrg1 200, deleteOrg1]) = [w]"
    "w \<in> set [putOrg1 100, putOrg1 200, deleteOrg1]"
    "getLastUpdated exampleExternals w \<noteq> 0"
    "getLastUpdated exampleExternals (putOrg1 200) \<le> getLastUpdated exampleExternals w"
    by (auto simp: example_times)
  from w(2,3,4) have "w = putOrg1 200" by (auto simp: example_times)
  with w(1) show ?thesis by simp
qed

subsection \<open>Exclusion list (C8)\<close>

lemma TrimRight_snoc: "strings_TrimRight (s @ [c]) c = strings_TrimRight s c"
  by (simp add: strings_TrimRight_def)

lemma sameIgnoringOneSlash_TrimRight:
  "sameIgnoringOneSlash a b \<Longrightarrow> strings_TrimRight a (CHR ''/'') = strings_TrimRight b (CHR ''/'')"
  using TrimRight_snoc[of a "CHR ''/''"] TrimRight_snoc[of b "CHR ''/''"]
  by (auto simp: sameIgnoringOneSlash_def)

text \<open>
  C8, as the code has it. For every configured exclusion entry \<open>E\<close> and every
  registration attempt whose base URL equals \<open>E\<close> after ignoring one trailing slash,
  the check of the URL still comes first and decides the result. When the base URL is an
  absolute http or https URL with a host, the attempt is skipped silently: the call
  returns no error and the component as it was. When \<^verbatim>\<open>url.Parse\<close> fails, or the scheme
  is not http or https, or there is no host, the call returns the
  \<^verbatim>\<open>invalid FHIR base URL\<close> error. In no case is anything added to the registry.
\<close>

theorem register_excluded_skipped:
  assumes "E \<in> set (ExcludeAdminDirectories (config c))"
    and "sameIgnoringOneSlash baseURL E"
  shows "registerAdministrationDirectory ext c baseURL types disc srcURL ura =
       (case url_Parse ext baseURL of
          Inl err \<Rightarrow> Inl (''invalid FHIR base URL (url='' @ baseURL @ ''): '' @ err)
        | Inr parsed \<Rightarrow>
            if strings_ToLower (Scheme parsed) \<in> {''http'', ''https''} \<and> Host parsed \<noteq> []
            then Inr c
            else Inl (''invalid FHIR base URL (url='' @ baseURL @ '')''))
     \<and> (\<forall>c'. registerAdministrationDirectory ext c baseURL types disc srcURL ura = Inr c'
            \<longrightarrow> c' = c)"
proof -
  have t: "strings_TrimRight E (CHR ''/'') = strings_TrimRight baseURL (CHR ''/'')"
    using sameIgnoringOneSlash_TrimRight[OF assms(2)] by simp
  have ex: "\<exists>excludedURL \<in> set (ExcludeAdminDirectories (config c)).
      strings_TrimRight excludedURL (CHR ''/'') = strings_TrimRight baseURL (CHR ''/'')"
    using assms(1) t by blast
  show ?thesis
    using ex by (auto simp: registerAdministrationDirectory_def Let_def split: sum.splits)
qed

text \<open>The theorem at an excluded URL written with a trailing slash, which is skipped,
  and at an excluded entry that is not a URL, which is refused.\<close>

theorem register_excluded_skipped_witness:
  "registerAdministrationDirectory exampleExternals excludingComponent
     ''http://example.com/fhir/'' [''Organization''] False [] [] = Inr excludingComponent
   \<and> registerAdministrationDirectory exampleExternals excludingComponent
       ''not-a-valid-url'' [''Organization''] False [] []
     = Inl ''invalid FHIR base URL (url=not-a-valid-url)''"
proof -
  have e: "''http://example.com/fhir'' \<in> set (ExcludeAdminDirectories (config excludingComponent))"
    "''not-a-valid-url'' \<in> set (ExcludeAdminDirectories (config excludingComponent))"
    by (simp_all add: excludingComponent_def excludingConfig_def)
  have s: "sameIgnoringOneSlash ''http://example.com/fhir/'' ''http://example.com/fhir''"
    "sameIgnoringOneSlash ''not-a-valid-url'' ''not-a-valid-url''"
    by (simp_all add: sameIgnoringOneSlash_def)
  have p: "url_Parse exampleExternals ''http://example.com/fhir/'' =
      Inr \<lparr>Scheme = ''http'', Host = ''example.com''\<rparr>"
    "url_Parse exampleExternals ''not-a-valid-url'' = Inr \<lparr>Scheme = [], Host = []\<rparr>"
    by (simp_all add: exampleExternals_def example_Parse_def)
  have l: "strings_ToLower ''http'' = ''http''" "strings_ToLower [] = []"
    by (simp_all add: strings_ToLower_def lower_char_def)
  show ?thesis
    using register_excluded_skipped[OF e(1) s(1), of exampleExternals "[''Organization'']" False "[]" "[]"]
      register_excluded_skipped[OF e(2) s(2), of exampleExternals "[''Organization'']" False "[]" "[]"]
      p l
    by simp
qed

text \<open>
  C8 as stated fails where the excluded entry is not a valid URL: the check of the URL
  comes first, and the attempt returns an error instead of being skipped silently.
\<close>

theorem register_excluded_invalid_counterexample:
  "''not-a-valid-url'' \<in> set (ExcludeAdminDirectories (config excludingComponent))
   \<and> registerAdministrationDirectory exampleExternals excludingComponent
       ''not-a-valid-url'' [''Organization''] False [] []
     = Inl ''invalid FHIR base URL (url=not-a-valid-url)''"
  by (simp add: excludingComponent_def excludingConfig_def registerAdministrationDirectory_def
      exampleExternals_def example_Parse_def strings_ToLower_def)

subsection \<open>Pre-scan for Endpoint DELETEs (C10)\<close>

lemma New_rootConfig: "New exampleExternals Map.empty rootConfig = Inr rootComponent"
  by (simp add: New_def rootConfig_def rootComponent_def rootDirectory_def
      registerAdministrationDirectory_def exampleExternals_def example_Parse_def
      strings_ToLower_def lower_char_def strings_TrimRight_def
      defaultDirectoryResourceTypes_def)

lemma processEndpointDeletes_dirs:
  "administrationDirectories (processEndpointDeletes c es) =
     filter (\<lambda>d. \<forall>e \<in> set es. isEndpointDelete e \<longrightarrow> FullUrl e \<noteq> Some (sourceURL d))
       (administrationDirectories c)"
proof (induction es arbitrary: c)
  case Nil
  then show ?case by simp
next
  case (Cons e es)
  show ?case
  proof (cases "isEndpointDelete e")
    case True
    then obtain u where u: "FullUrl e = Some u"
      by (auto simp: isEndpointDelete_def split: option.splits)
    show ?thesis
      using True u by (simp add: Cons.IH unregisterAdministrationDirectory_def) metis
  next
    case False
    then show ?thesis by (simp add: Cons.IH)
  qed
qed

lemma register_sourceURL:
  "registerAdministrationDirectory ext c baseURL types disc srcURL ura = Inr c' \<Longrightarrow>
   d \<in> set (administrationDirectories c') \<Longrightarrow>
   d \<in> set (administrationDirectories c) \<or> sourceURL d = srcURL"
  by (auto simp: registerAdministrationDirectory_def Let_def split: sum.splits if_splits)

lemma registerRoots_sourceURL:
  "registerRoots ext c roots = Inr c' \<Longrightarrow>
   \<forall>d \<in> set (administrationDirectories c). sourceURL d = [] \<Longrightarrow>
   \<forall>d \<in> set (administrationDirectories c'). sourceURL d = []"
proof (induction roots arbitrary: c)
  case Nil
  then show ?case by simp
next
  case (Cons r roots)
  obtain name url where r: "r = (name, url)" by (cases r)
  from Cons.prems(1) r obtain c1 where c1:
    "registerAdministrationDirectory ext c url rootDirectoryResourceTypes True [] [] = Inr c1"
    "registerRoots ext c1 roots = Inr c'"
    by (auto split: sum.splits)
  have "\<forall>d \<in> set (administrationDirectories c1). sourceURL d = []"
    using register_sourceURL[OF c1(1)] Cons.prems(2) by blast
  then show ?case using Cons.IH[OF c1(2)] by blast
qed

lemma New_sourceURL:
  "New ext persisted cfg = Inr c0 \<Longrightarrow> \<forall>d \<in> set (administrationDirectories c0). sourceURL d = []"
proof -
  assume n: "New ext persisted cfg = Inr c0"
  then obtain c1 where c1: "registerRoots ext
             \<lparr>config = cfg, administrationDirectories = [],
              directoryResourceTypes = DirectoryResourceTypes cfg,
              lastUpdateTimes = (if StateFile cfg \<noteq> [] then persisted else Map.empty)\<rparr>
             (AdministrationDirectories cfg) = Inr c1"
    and c0: "administrationDirectories c0 = administrationDirectories c1"
    by (auto simp: New_def split: sum.splits if_splits)
  show ?thesis using registerRoots_sourceURL[OF c1] c0 by simp
qed

text \<open>
  C10, as the code has it. The pre-scan reads the deduplicated entries. For every
  discoverable source whose deduplicated feed contains an Endpoint DELETE entry with a
  \<^verbatim>\<open>fullUrl\<close> that is present but empty, the pre-scan leaves no registry entry whose
  source URL is empty, and it adds none. The directories that \<^verbatim>\<open>New\<close> registers from
  the configuration all have the empty source URL, so they are all unregistered.
\<close>

theorem prescan_unregisters_empty_source:
  assumes "e \<in> set (deduplicateHistoryEntries ext entries)"
    and "isEndpointDelete e" and "FullUrl e = Some []"
  shows "(\<forall>d \<in> set (administrationDirectories (preScan ext c True entries)). sourceURL d \<noteq> [])
       \<and> set (administrationDirectories (preScan ext c True entries))
           \<subseteq> set (administrationDirectories c)
       \<and> (\<forall>c0. New ext persisted cfg = Inr c0 \<longrightarrow>
            (\<forall>d \<in> set (administrationDirectories c0). sourceURL d = []))"
  using assms New_sourceURL[of ext persisted cfg]
  by (auto simp: preScan_def processEndpointDeletes_dirs)

text \<open>The theorem at the feed that holds only the DELETE: the registry, which held the
  configured root, is empty after the pre-scan.\<close>

theorem prescan_unregisters_empty_source_witness:
  "administrationDirectories (preScan exampleExternals rootComponent True [deleteEndpoint1]) = []
   \<and> New exampleExternals Map.empty rootConfig = Inr rootComponent
   \<and> map sourceURL (administrationDirectories rootComponent) = [[]]"
proof -
  have d: "deduplicateHistoryEntries exampleExternals [deleteEndpoint1] = [deleteEndpoint1]"
    by (simp add: deduplicateHistoryEntries_def dedupStep_def Let_def entryResourceID_def
        extractResourceIDFromURL_def deleteEndpoint1_def)
  have a: "deleteEndpoint1 \<in> set (deduplicateHistoryEntries exampleExternals [deleteEndpoint1])"
    by (simp add: d)
  have b: "isEndpointDelete deleteEndpoint1"
    by (simp add: isEndpointDelete_def deleteEndpoint1_def)
  have f: "FullUrl deleteEndpoint1 = Some []"
    by (simp add: deleteEndpoint1_def)
  have s: "map sourceURL (administrationDirectories rootComponent) = [[]]"
    by (simp add: rootComponent_def rootDirectory_def)
  let ?after = "administrationDirectories (preScan exampleExternals rootComponent True
      [deleteEndpoint1])"
  from prescan_unregisters_empty_source[OF a b f, of rootComponent Map.empty rootConfig]
  have n: "\<forall>d \<in> set ?after. sourceURL d \<noteq> []"
    and u: "set ?after \<subseteq> set (administrationDirectories rootComponent)"
    by simp_all
  have r: "\<forall>d \<in> set (administrationDirectories rootComponent). sourceURL d = []"
    by (simp add: rootComponent_def rootDirectory_def)
  have "?after = []"
  proof (cases ?after)
    case Nil
    then show ?thesis .
  next
    case (Cons d ds)
    then have d: "d \<in> set ?after" by simp
    then have "sourceURL d \<noteq> []" using n by simp
    moreover have "d \<in> set (administrationDirectories rootComponent)" using d u by (rule subsetD[rotated])
    then have "sourceURL d = []" using r by simp
    ultimately show ?thesis by simp
  qed
  then show ?thesis using New_rootConfig s by simp
qed

text \<open>
  C10 as stated fails where deduplication drops the DELETE: in the feed
  \<^verbatim>\<open>[PUT Endpoint/1, DELETE Endpoint/1]\<close> the update comes first and is the entry kept
  for the id \<open>1\<close>, the pre-scan sees no DELETE, and the root stays registered.
\<close>

theorem prescan_after_dedup_counterexample:
  "deleteEndpoint1 \<in> set [putEndpoint1, deleteEndpoint1]
   \<and> isEndpointDelete deleteEndpoint1
   \<and> FullUrl deleteEndpoint1 = Some []
   \<and> preScan exampleExternals rootComponent True [putEndpoint1, deleteEndpoint1] = rootComponent
   \<and> map sourceURL (administrationDirectories rootComponent) = [[]]"
proof -
  have d: "deduplicateHistoryEntries exampleExternals [putEndpoint1, deleteEndpoint1] = [putEndpoint1]"
    by (simp add: deduplicateHistoryEntries_def dedupStep_def Let_def entryResourceID_def
        extractResourceIDFromURL_def deleteEndpoint1_def putEndpoint1_def exampleExternals_def
        infoDoc_def isMoreRecent_def getLastUpdated_def)
  have p: "\<not> isEndpointDelete putEndpoint1"
    by (simp add: isEndpointDelete_def putEndpoint1_def)
  show ?thesis
    using p by (simp add: preScan_def d)
      (simp add: isEndpointDelete_def deleteEndpoint1_def rootComponent_def rootDirectory_def)
qed

subsection \<open>Paginated queries (C9)\<close>

lemma Itoa_1000: "strconv_Itoa 1000 = ''1000''"
  by (simp add: strconv_Itoa.simps digit_char_def)

lemma paginate_below:
  "allPages pages = Some bs \<Longrightarrow>
   length acc + length (concat (map Entry bs)) < maxUpdateEntries \<Longrightarrow>
   paginate acc pages = Inr (acc @ concat (map Entry bs))"
proof (induction acc pages arbitrary: bs rule: paginate.induct)
  case (1 entries)
  then show ?case by simp
next
  case (2 entries err pages)
  then show ?case by simp
next
  case (3 entries searchSet pages)
  from "3.prems"(1) obtain bs' where bs': "allPages pages = Some bs'" "bs = searchSet # bs'"
    by (auto split: option.splits)
  have lt: "length (entries @ Entry searchSet) < maxUpdateEntries"
    using "3.prems"(2) bs' by simp
  have "paginate (entries @ Entry searchSet) pages =
      Inr ((entries @ Entry searchSet) @ concat (map Entry bs'))"
    using "3.IH"[OF refl _ bs'(1)] lt "3.prems"(2) bs' by simp
  then show ?case using lt bs' by (simp add: Let_def)
qed

lemma paginate_above:
  "allPages pages = Some bs \<Longrightarrow>
   length acc < maxUpdateEntries \<Longrightarrow>
   maxUpdateEntries \<le> length acc + length (concat (map Entry bs)) \<Longrightarrow>
   \<exists>err. paginate acc pages = Inl err"
proof (induction acc pages arbitrary: bs rule: paginate.induct)
  case (1 entries)
  then show ?case by simp
next
  case (2 entries err pages)
  then show ?case by simp
next
  case (3 entries searchSet pages)
  from "3.prems"(1) obtain bs' where bs': "allPages pages = Some bs'" "bs = searchSet # bs'"
    by (auto split: option.splits)
  show ?case
  proof (cases "maxUpdateEntries \<le> length (entries @ Entry searchSet)")
    case True
    then show ?thesis by (simp add: Let_def)
  next
    case False
    then have "\<exists>err. paginate (entries @ Entry searchSet) pages = Inl err"
      using "3.IH"[OF refl _ bs'(1)] "3.prems"(3) bs' by simp
    then show ?thesis using False by (simp add: Let_def)
  qed
qed

text \<open>With every page fetched, a search returns the entries of all pages, in order, and
  the first page's bundle, when they are fewer than 1000; it fails when they are 1000 or
  more.\<close>

lemma queryFHIR_below_limit:
  assumes "firstPage answer = Inr searchSet"
    and "allPages (nextPages answer) = Some bs"
    and "length (concat (map Entry (searchSet # bs))) < maxUpdateEntries"
  shows "queryFHIR answer includeHistory = Inr (concat (map Entry (searchSet # bs)), searchSet)"
proof -
  have "allPages (Inr searchSet # nextPages answer) = Some (searchSet # bs)"
    using assms(2) by simp
  from paginate_below[OF this, of "[]"] assms(3)
  have "paginate [] (Inr searchSet # nextPages answer) = Inr (concat (map Entry (searchSet # bs)))"
    by simp
  then show ?thesis using assms(1) by (simp add: queryFHIR_def Let_def del: paginate.simps)
qed

lemma queryFHIR_limit_reached:
  assumes "firstPage answer = Inr searchSet"
    and "allPages (nextPages answer) = Some bs"
    and "maxUpdateEntries \<le> length (concat (map Entry (searchSet # bs)))"
  shows "\<exists>err. queryFHIR answer includeHistory = Inl err"
proof -
  have "allPages (Inr searchSet # nextPages answer) = Some (searchSet # bs)"
    using assms(2) by simp
  from paginate_above[OF this, of "[]"] assms(3)
  obtain err where "paginate [] (Inr searchSet # nextPages answer) = Inl err"
    by (auto simp: maxUpdateEntries_def)
  then show ?thesis using assms(1) by (simp add: queryFHIR_def Let_def del: paginate.simps)
qed

text \<open>
  C9 at a search whose only page has exactly 1000 entries, a total within the limit of
  \<open>maxUpdateEntries = 1000\<close>: the current-state search and the history search both
  fail with "too many entries (1000)", since the callback compares with \<^verbatim>\<open>>=\<close>.
\<close>

theorem queryFHIR_fails_at_1000_entries:
  "length (Entry (projr (firstPage fullPage))) = 1000
   \<and> nextPages fullPage = []
   \<and> queryFHIR fullPage False =
       Inl ''pagination of search failed: too many entries (1000), aborting update to prevent excessive memory usage''
   \<and> queryFHIR fullPage True =
       Inl ''pagination of _history search failed: too many entries (1000), aborting update to prevent excessive memory usage''"
  by (simp add: fullPage_def queryFHIR_def maxUpdateEntries_def Itoa_1000)

subsection \<open>The organization tree (C3)\<close>

lemma orgMapInv_update:
  "orgMapInv m \<Longrightarrow> OrgId org = Some i \<Longrightarrow> orgMapInv (AList.update i org m)"
  by (auto simp: orgMapInv_def distinct_update dest!: in_set_updateD)

lemma buildOrgMap_inv: "orgMapInv m \<Longrightarrow> orgMapInv (buildOrgMap ext entries m)"
  by (induction entries arbitrary: m) (auto simp: orgMapInv_update split: option.splits)

lemma orgMapInv_lookup:
  "orgMapInv m \<Longrightarrow> map_of m k = Some org \<Longrightarrow> OrgId org = Some k \<and> org \<in> snd ` set m"
  by (force simp: orgMapInv_def dest: map_of_SomeD)

lemma orgMapInv_same_id:
  assumes "orgMapInv m" "a \<in> snd ` set m" "b \<in> snd ` set m" "OrgId a = OrgId b"
  shows "a = b"
proof -
  from assms(2) obtain ka where ka: "(ka, a) \<in> set m" by force
  from assms(3) obtain kb where kb: "(kb, b) \<in> set m" by force
  have "OrgId a = Some ka" "OrgId b = Some kb"
    using assms(1) ka kb by (auto simp: orgMapInv_def)
  then have "ka = kb" using assms(4) by simp
  then show ?thesis
    using assms(1) ka kb by (auto simp: orgMapInv_def dest: eq_key_imp_eq_value)
qed

lemma links_mono:
  "organizationLinksToParentRecursive m org p V d n \<Longrightarrow> V' \<subseteq> V \<Longrightarrow> d' \<le> d \<Longrightarrow>
   organizationLinksToParentRecursive m org p V' d' n"
proof (induction m org p V d n arbitrary: V' d' rule: organizationLinksToParentRecursive.induct)
  case (1 orgMap org parentOrg visited depth maxDepth)
  note step = organizationLinksToParentRecursive.simps[of orgMap org parentOrg]
  from "1.prems"(1) have d: "\<not> depth > maxDepth"
    by (subst (asm) step) (simp split: if_splits)
  then have d': "\<not> d' > maxDepth" using "1.prems"(3) by simp
  from "1.prems"(1) d have nv: "\<not> (case OrgId org of None \<Rightarrow> False | Some i \<Rightarrow> i \<in> visited)"
    by (subst (asm) step) (simp split: if_splits)
  then have nv': "\<not> (case OrgId org of None \<Rightarrow> False | Some i \<Rightarrow> i \<in> V')"
    using "1.prems"(2) by (auto split: option.splits)
  show ?case
  proof (cases "case OrgId org of None \<Rightarrow> False | Some i \<Rightarrow> OrgId parentOrg = Some i")
    case True
    then show ?thesis using d' nv' by (subst step) simp
  next
    case False
    from "1.prems"(1) d nv False obtain partOf ref nextOrg where n:
      "PartOf org = Some partOf" "Reference partOf = Some ref"
      "map_of orgMap (partOfID ref) = Some nextOrg"
      "organizationLinksToParentRecursive orgMap nextOrg parentOrg
         (case OrgId org of None \<Rightarrow> visited | Some i \<Rightarrow> insert i visited) (depth + 1) maxDepth"
      by (subst (asm) step) (auto simp: Let_def split: if_splits option.splits)
    have sub: "(case OrgId org of None \<Rightarrow> V' | Some i \<Rightarrow> insert i V')
        \<subseteq> (case OrgId org of None \<Rightarrow> visited | Some i \<Rightarrow> insert i visited)"
      using "1.prems"(2) by (auto split: option.splits)
    have "organizationLinksToParentRecursive orgMap nextOrg parentOrg
         (case OrgId org of None \<Rightarrow> V' | Some i \<Rightarrow> insert i V') (d' + 1) maxDepth"
      using "1.IH"[OF d nv False n(1) n(2) refl n(3) n(4) sub] "1.prems"(3) by simp
    then show ?thesis using d' nv' False n(1,2,3)
      by (subst step) (simp add: Let_def)
  qed
qed

lemma links_two_parents:
  "organizationLinksToParentRecursive m org p1 V d n \<Longrightarrow>
   organizationLinksToParentRecursive m org p2 V d n \<Longrightarrow>
   org \<in> snd ` set m \<Longrightarrow> orgMapInv m \<Longrightarrow> p1 \<in> snd ` set m \<Longrightarrow> p2 \<in> snd ` set m \<Longrightarrow>
   organizationLinksToParentRecursive m p1 p2 V d n \<or>
   organizationLinksToParentRecursive m p2 p1 V d n"
proof (induction m org p1 V d n rule: organizationLinksToParentRecursive.induct)
  case (1 orgMap org parentOrg visited depth maxDepth)
  note step = organizationLinksToParentRecursive.simps[of orgMap org]
  from "1.prems"(1) have d: "\<not> depth > maxDepth"
    by (subst (asm) step) (simp split: if_splits)
  from "1.prems"(1) d have nv: "\<not> (case OrgId org of None \<Rightarrow> False | Some i \<Rightarrow> i \<in> visited)"
    by (subst (asm) step) (simp split: if_splits)
  show ?case
  proof (cases "OrgId org = OrgId parentOrg")
    case True
    then have "org = parentOrg"
      using orgMapInv_same_id[OF "1.prems"(4) "1.prems"(3) "1.prems"(5)] by simp
    then show ?thesis using "1.prems"(2) by simp
  next
    case False
    show ?thesis
    proof (cases "OrgId org = OrgId p2")
      case True
      then have "org = p2"
        using orgMapInv_same_id[OF "1.prems"(4) "1.prems"(3) "1.prems"(6)] by simp
      then show ?thesis using "1.prems"(1) by simp
    next
      case F2: False
      have c1: "\<not> (case OrgId org of None \<Rightarrow> False | Some i \<Rightarrow> OrgId parentOrg = Some i)"
        using False by (auto split: option.splits)
      have c2: "\<not> (case OrgId org of None \<Rightarrow> False | Some i \<Rightarrow> OrgId p2 = Some i)"
        using F2 by (auto split: option.splits)
      from "1.prems"(1) d nv c1 obtain partOf ref nextOrg where n:
        "PartOf org = Some partOf" "Reference partOf = Some ref"
        "map_of orgMap (partOfID ref) = Some nextOrg"
        "organizationLinksToParentRecursive orgMap nextOrg parentOrg
           (case OrgId org of None \<Rightarrow> visited | Some i \<Rightarrow> insert i visited) (depth + 1) maxDepth"
        by (subst (asm) step) (auto simp: Let_def split: if_splits option.splits)
      from "1.prems"(2) d nv c2 n(1,2,3) have n2:
        "organizationLinksToParentRecursive orgMap nextOrg p2
           (case OrgId org of None \<Rightarrow> visited | Some i \<Rightarrow> insert i visited) (depth + 1) maxDepth"
        by (subst (asm) step) (auto simp: Let_def split: if_splits option.splits)
      have nx: "nextOrg \<in> snd ` set orgMap"
        using orgMapInv_lookup[OF "1.prems"(4) n(3)] by simp
      have "organizationLinksToParentRecursive orgMap parentOrg p2
           (case OrgId org of None \<Rightarrow> visited | Some i \<Rightarrow> insert i visited) (depth + 1) maxDepth \<or>
         organizationLinksToParentRecursive orgMap p2 parentOrg
           (case OrgId org of None \<Rightarrow> visited | Some i \<Rightarrow> insert i visited) (depth + 1) maxDepth"
        using "1.IH"[OF d nv c1 n(1) n(2) refl n(3) n(4) n2 nx "1.prems"(4,5,6)] .
      moreover have "visited \<subseteq> (case OrgId org of None \<Rightarrow> visited | Some i \<Rightarrow> insert i visited)"
        by (auto split: option.splits)
      ultimately show ?thesis
        using links_mono[of orgMap _ _ _ "depth + 1" maxDepth visited depth] by auto
    qed
  qed
qed

lemma tree_member:
  assumes "(p, l) \<in> set (createOrganizationTree ext entries)" "org \<in> set l"
  shows "p \<in> snd ` set (buildOrgMap ext entries [])"
    and "org \<in> snd ` set (buildOrgMap ext entries [])"
    and "organizationLinksToParentRecursive (buildOrgMap ext entries []) org p {} 0 10"
  using assms
  by (auto simp: createOrganizationTree_def Let_def findOrganizationsLinkedToParent_def
      organizationLinksToParent_def)

text \<open>
  C3, as the code has it. For every set of Organization bundle entries, an organization
  is a member of the membership sets of two different roots of the tree only when one of
  the two roots is itself a member of the other's set (a URA-bearing organization that is
  part of another one). Where no root is a member of another root's set, every
  organization is a member of at most one root's set.
\<close>

theorem tree_member_of_two_roots_nested:
  assumes "(p1, l1) \<in> set (createOrganizationTree ext entries)"
    and "(p2, l2) \<in> set (createOrganizationTree ext entries)"
    and "org \<in> set l1" and "org \<in> set l2" and "p1 \<noteq> p2"
  shows "p1 \<in> set l2 \<or> p2 \<in> set l1"
proof -
  let ?m = "buildOrgMap ext entries []"
  have inv: "orgMapInv ?m"
    by (rule buildOrgMap_inv) (simp add: orgMapInv_def)
  note a = tree_member[OF assms(1) assms(3)]
  note b = tree_member[OF assms(2) assms(4)]
  have l1: "l1 = findOrganizationsLinkedToParent ?m p1"
    using assms(1) by (auto simp: createOrganizationTree_def Let_def)
  have l2: "l2 = findOrganizationsLinkedToParent ?m p2"
    using assms(2) by (auto simp: createOrganizationTree_def Let_def)
  have ne: "OrgId p1 \<noteq> OrgId p2"
    using orgMapInv_same_id[OF inv a(1) b(1)] assms(5) by auto
  from links_two_parents[OF a(3) b(3) a(2) inv a(1) b(1)]
  show ?thesis
    using ne a(1) b(1) unfolding l1 l2
    by (auto simp: findOrganizationsLinkedToParent_def organizationLinksToParent_def)
qed

lemma nested_tree:
  "createOrganizationTree exampleExternals nestedOrganizations =
     [(orgA, [orgB, orgC]), (orgB, [orgC])]"
proof -
  have m: "buildOrgMap exampleExternals nestedOrganizations [] =
      [(''A'', orgA), (''B'', orgB), (''C'', orgC)]"
    by (simp add: nestedOrganizations_def searchEntry_def organizationDoc_def
        exampleExternals_def orgA_def orgB_def orgC_def)
  have ids: "OrgId orgA = Some ''A''" "OrgId orgB = Some ''B''" "OrgId orgC = Some ''C''"
    "PartOf orgA = None" "PartOf orgB = Some \<lparr>Reference = Some ''Organization/A''\<rparr>"
    "PartOf orgC = Some \<lparr>Reference = Some ''Organization/B''\<rparr>"
    by (simp_all add: orgA_def orgB_def orgC_def)
  have refs: "partOfID ''Organization/A'' = ''A''" "partOfID ''Organization/B'' = ''B''"
    by (simp_all add: partOfID_def strings_HasPrefix_def)
  have ura: "FilterIdentifiersBySystem exampleExternals (OrgIdentifier orgA) URANamingSystem \<noteq> []"
    "FilterIdentifiersBySystem exampleExternals (OrgIdentifier orgB) URANamingSystem \<noteq> []"
    "FilterIdentifiersBySystem exampleExternals (OrgIdentifier orgC) URANamingSystem = []"
    by (simp_all add: exampleExternals_def orgA_def orgB_def orgC_def)
  show ?thesis
    unfolding createOrganizationTree_def m Let_def
    by (simp add: ura findOrganizationsLinkedToParent_def organizationLinksToParent_def
        organizationLinksToParentRecursive.simps ids refs)
qed

text \<open>The theorem at the three organizations: \<open>C\<close> is in the sets of \<open>A\<close> and of
  \<open>B\<close>, and \<open>B\<close> is in the set of \<open>A\<close>.\<close>

theorem tree_member_of_two_roots_nested_witness:
  "(orgA, [orgB, orgC]) \<in> set (createOrganizationTree exampleExternals nestedOrganizations)
   \<and> (orgB, [orgC]) \<in> set (createOrganizationTree exampleExternals nestedOrganizations)
   \<and> orgA \<noteq> orgB
   \<and> (orgA \<in> set [orgC] \<or> orgB \<in> set [orgB, orgC])"
proof -
  have a: "(orgA, [orgB, orgC]) \<in> set (createOrganizationTree exampleExternals nestedOrganizations)"
    and b: "(orgB, [orgC]) \<in> set (createOrganizationTree exampleExternals nestedOrganizations)"
    by (simp_all add: nested_tree)
  have c: "orgC \<in> set [orgB, orgC]" "orgC \<in> set [orgC]" by simp_all
  have n: "orgA \<noteq> orgB" by (simp add: orgA_def orgB_def)
  from tree_member_of_two_roots_nested[OF a b c n] a b n show ?thesis by simp
qed

text \<open>
  C3 as stated fails: \<open>C\<close> lacks a URA identifier and is a member of the sets of the two
  roots \<open>A\<close> and \<open>B\<close>, since its \<^verbatim>\<open>partOf\<close> chain passes through \<open>B\<close> and reaches
  \<open>A\<close>.
\<close>

theorem tree_member_of_two_roots_counterexample:
  "createOrganizationTree exampleExternals nestedOrganizations =
     [(orgA, [orgB, orgC]), (orgB, [orgC])]
   \<and> FilterIdentifiersBySystem exampleExternals (OrgIdentifier orgC) URANamingSystem = []
   \<and> orgA \<noteq> orgB"
  by (simp add: nested_tree) (simp add: exampleExternals_def orgA_def orgB_def orgC_def)

subsection \<open>The transaction builder (C2, C5)\<close>

lemma sequenceErr_pairs:
  "sequenceErr (map (\<lambda>(k, x). case f x of Inl err \<Rightarrow> Inl err | Inr x' \<Rightarrow> Inr (k, x')) v) = Inr w \<Longrightarrow>
   (map_of v k = None \<longrightarrow> map_of w k = None) \<and>
   (\<forall>x. map_of v k = Some x \<longrightarrow> (\<exists>x'. f x = Inr x' \<and> map_of w k = Some x'))"
proof (induction v arbitrary: w)
  case Nil
  then show ?case by simp
next
  case (Cons p v)
  obtain k0 x0 where p: "p = (k0, x0)" by (cases p)
  from Cons.prems p obtain x0' w' where s:
    "f x0 = Inr x0'"
    "sequenceErr (map (\<lambda>(k, x). case f x of Inl err \<Rightarrow> Inl err | Inr x' \<Rightarrow> Inr (k, x')) v) = Inr w'"
    "w = (k0, x0') # w'"
    by (auto split: sum.splits)
  show ?case using Cons.IH[OF s(2)] s(1) s(3) p by auto
qed

lemma convertMap_lookup:
  assumes "convertMap ext v base = Inr v'" and "k \<noteq> ''reference''"
  shows "(map_of v k = None \<longrightarrow> map_of v' k = None) \<and>
     (\<forall>x. map_of v k = Some x \<longrightarrow>
        (\<exists>x'. convertReferencesRecursive ext x base = Inr x' \<and> map_of v' k = Some x'))"
proof -
  from assms(1) obtain newRef w where w:
    "sequenceErr (map (\<lambda>(k, x). case convertReferencesRecursive ext x base of
        Inl err \<Rightarrow> Inl err | Inr x' \<Rightarrow> Inr (k, x')) v) = Inr w"
    "v' = (case newRef of None \<Rightarrow> w | Some x \<Rightarrow> AList.update ''reference'' (JString x) w)"
    by (auto simp: convertMap_def split: sum.splits)
  have "map_of v' k = map_of w k"
    using w(2) assms(2) by (auto simp: update_conv' split: option.splits)
  then show ?thesis
    using sequenceErr_pairs[OF w(1), of k] by simp
qed

lemma convert_object:
  "convertReferencesRecursive ext (JObject m) base = Inr x' \<Longrightarrow>
   \<exists>m'. x' = JObject m' \<and> convertMap ext m base = Inr m'"
  by (auto simp: convertMap_def split: sum.splits)

lemma updateResourceMeta_meta:
  "\<exists>meta. map_of (updateResourceMeta resource source) ''meta'' = Some (JObject meta)
      \<and> map_of meta ''source'' = Some (JString source)"
  by (simp add: updateResourceMeta_def Let_def update_conv' delete_conv')

lemma updateResourceMeta_other:
  "k \<noteq> ''meta'' \<Longrightarrow> map_of (updateResourceMeta resource source) k = map_of resource k"
  by (simp add: updateResourceMeta_def Let_def update_conv')

lemma emitted_resource:
  assumes "convertMap ext (AList.delete ''id'' (updateResourceMeta resource1 srcURL)) base = Inr resource"
  shows "map_of resource ''id'' = None \<and>
     (\<exists>meta. map_of resource ''meta'' = Some (JObject meta) \<and>
        map_of meta ''source'' = Some (JString srcURL))"
proof -
  let ?v = "AList.delete ''id'' (updateResourceMeta resource1 srcURL)"
  have id: "map_of ?v ''id'' = None" by (simp add: delete_conv')
  obtain meta where meta: "map_of ?v ''meta'' = Some (JObject meta)"
    "map_of meta ''source'' = Some (JString srcURL)"
    using updateResourceMeta_meta[of resource1 srcURL] by (auto simp: delete_conv')
  have a: "map_of resource ''id'' = None"
    using convertMap_lookup[OF assms, of "''id''"] id by simp
  from convertMap_lookup[OF assms, of "''meta''"] meta(1) obtain x' where x':
    "convertReferencesRecursive ext (JObject meta) base = Inr x'" "map_of resource ''meta'' = Some x'"
    by auto
  from convert_object[OF x'(1)] obtain meta' where meta':
    "x' = JObject meta'" "convertMap ext meta base = Inr meta'" by auto
  from convertMap_lookup[OF meta'(2), of "''source''"] meta(2)
  have "map_of meta' ''source'' = Some (JString srcURL)" by auto
  then show ?thesis using a x'(2) meta'(1) by simp
qed

lemma stripName_id: "map_of (stripName rt isDisc resource) ''id'' = map_of resource ''id''"
  by (simp add: stripName_def delete_conv')

lemma emitPut_cases:
  assumes "emitPut ext tx fullUrl rt resource1 base = (tx', res)"
  shows "(\<exists>err. res = Inl err \<and> tx' = tx)
     \<or> (\<exists>resourceID srcURL resource.
          res = Inr rt
          \<and> map_of resource1 ''id'' = Some (JString resourceID)
          \<and> BuildSourceURL ext base [rt, resourceID] = Inr srcURL
          \<and> convertMap ext (AList.delete ''id'' (updateResourceMeta resource1 srcURL)) base
              = Inr resource
          \<and> tx' = tx @ [\<lparr>FullUrl = None, Resource = Some resource,
                   Request = Some \<lparr>Method = HTTPVerbPUT,
                                    Url = sourceRequestUrl ext rt srcURL\<rparr>,
                   Response = None\<rparr>])"
proof (cases "\<exists>resourceID. map_of resource1 ''id'' = Some (JString resourceID)")
  case False
  then show ?thesis using assms
    by (auto simp: emitPut_def split: option.splits json.splits)
next
  case True
  then obtain resourceID where rid: "map_of resource1 ''id'' = Some (JString resourceID)"
    by auto
  show ?thesis
  proof (cases "BuildSourceURL ext base [rt, resourceID]")
    case (Inl err)
    then show ?thesis using assms rid by (auto simp: emitPut_def)
  next
    case src: (Inr srcURL)
    show ?thesis
    proof (cases "convertMap ext (AList.delete ''id'' (updateResourceMeta resource1 srcURL)) base")
      case (Inl err)
      then show ?thesis using assms rid src by (auto simp: emitPut_def)
    next
      case (Inr resource)
      then show ?thesis using assms rid src by (auto simp: emitPut_def)
    qed
  qed
qed

lemma doSync_discoverable:
  assumes "UnmarshalMap ext r = Inr resource"
    and "map_of resource ''resourceType'' = Some (JString rt)"
    and "doSync ext True rt r = Inr sync"
  shows "sync = isDirectoryEndpoint ext r"
  using assms by (auto simp: doSync_def isDirectoryEndpoint_def split: if_splits sum.splits)

lemma doSync_other: "doSync ext False rt r = Inr True"
  by (simp add: doSync_def)

lemma buildPut_cases:
  assumes "buildPut ext tx fullUrl r allowed pom hcs isDisc base = (tx', res)"
  shows "(\<exists>err. res = Inl err \<and> tx' = tx)
     \<or> (\<exists>rt. res = Inr rt \<and> tx' = tx \<and> isDisc \<and> \<not> isDirectoryEndpoint ext r)
     \<or> (\<exists>rt resource0 resourceID srcURL resource.
          res = Inr rt \<and> (isDisc \<longrightarrow> isDirectoryEndpoint ext r)
          \<and> UnmarshalMap ext r = Inr resource0
          \<and> map_of resource0 ''resourceType'' = Some (JString rt)
          \<and> map_of resource0 ''id'' = Some (JString resourceID)
          \<and> BuildSourceURL ext base [rt, resourceID] = Inr srcURL
          \<and> convertMap ext (AList.delete ''id'' (updateResourceMeta
                (stripName rt isDisc resource0) srcURL)) base = Inr resource
          \<and> tx' = tx @ [\<lparr>FullUrl = None, Resource = Some resource,
                   Request = Some \<lparr>Method = HTTPVerbPUT,
                                    Url = sourceRequestUrl ext rt srcURL\<rparr>,
                   Response = None\<rparr>])"
proof (cases "UnmarshalMap ext r")
  case (Inl err)
  then show ?thesis using assms by (auto simp: buildPut_def)
next
  case (Inr resource0)
  show ?thesis
  proof (cases "\<exists>rt. map_of resource0 ''resourceType'' = Some (JString rt)")
    case False
    then show ?thesis using assms Inr
      by (auto simp: buildPut_def split: option.splits json.splits)
  next
    case True
    then obtain rt where rt: "map_of resource0 ''resourceType'' = Some (JString rt)" by auto
    show ?thesis
    proof (cases "ValidateUpdate ext allowed r pom hcs")
      case (Some err)
      then show ?thesis using assms Inr rt by (auto simp: buildPut_def)
    next
      case None
      show ?thesis
      proof (cases "doSync ext isDisc rt r")
        case (Inl err)
        then show ?thesis using assms Inr rt None by (auto simp: buildPut_def)
      next
        case sync: (Inr sync)
        have de: "isDisc \<Longrightarrow> sync = isDirectoryEndpoint ext r"
          using doSync_discoverable[OF Inr rt] sync by simp
        show ?thesis
        proof (cases sync)
          case False
          then have "isDisc" using sync doSync_other[of ext rt r] by (cases isDisc) auto
          moreover have "res = Inr rt" "tx' = tx"
            using assms Inr rt None sync False by (auto simp: buildPut_def)
          ultimately show ?thesis using de False by simp
        next
          case True
          then have e: "emitPut ext tx fullUrl rt (stripName rt isDisc resource0) base = (tx', res)"
            using assms Inr rt None sync by (simp add: buildPut_def)
          from emitPut_cases[OF e] show ?thesis
          proof
            assume "\<exists>err. res = Inl err \<and> tx' = tx"
            then show ?thesis by simp
          next
            assume "\<exists>resourceID srcURL resource.
              res = Inr rt
              \<and> map_of (stripName rt isDisc resource0) ''id'' = Some (JString resourceID)
              \<and> BuildSourceURL ext base [rt, resourceID] = Inr srcURL
              \<and> convertMap ext (AList.delete ''id'' (updateResourceMeta
                    (stripName rt isDisc resource0) srcURL)) base = Inr resource
              \<and> tx' = tx @ [\<lparr>FullUrl = None, Resource = Some resource,
                   Request = Some \<lparr>Method = HTTPVerbPUT,
                                    Url = sourceRequestUrl ext rt srcURL\<rparr>,
                   Response = None\<rparr>]"
            then obtain resourceID srcURL resource where f:
              "res = Inr rt"
              "map_of (stripName rt isDisc resource0) ''id'' = Some (JString resourceID)"
              "BuildSourceURL ext base [rt, resourceID] = Inr srcURL"
              "convertMap ext (AList.delete ''id'' (updateResourceMeta
                    (stripName rt isDisc resource0) srcURL)) base = Inr resource"
              "tx' = tx @ [\<lparr>FullUrl = None, Resource = Some resource,
                   Request = Some \<lparr>Method = HTTPVerbPUT,
                                    Url = sourceRequestUrl ext rt srcURL\<rparr>,
                   Response = None\<rparr>]"
              by blast
            have "map_of resource0 ''id'' = Some (JString resourceID)"
              using f(2) by (simp add: stripName_id)
            then show ?thesis using f Inr rt de True by blast
          qed
        qed
      qed
    qed
  qed
qed

lemma buildDelete_cases:
  assumes "buildDelete ext tx rq allowed base = (tx', res)"
  shows "(\<exists>err. res = Inl err \<and> tx' = tx) \<or> (\<exists>rt e. res = Inr rt \<and> tx' = tx @ [e])"
  using assms
  by (auto simp: buildDelete_def Let_def split: if_splits sum.splits)

text \<open>
  C2. For every entry that is not a DELETE and that \<^verbatim>\<open>buildUpdateTransaction\<close> accepts
  into the transaction (the bundle grows), for every source base URL: the resource
  decodes to a map with a resource type and an id, the source URL
  \<^verbatim>\<open>BuildSourceURL(sourceBase, resourceType, id)\<close> is built from them, the bundle grows by
  one PUT entry, and in the resource of that entry \<^verbatim>\<open>meta.source\<close> is that source URL
  and there is no \<^verbatim>\<open>id\<close> field.
\<close>

theorem put_entry_meta_source_and_no_id:
  assumes "buildUpdateTransaction ext tx entry allowed pom hcs isDisc base = (tx', res)"
    and "\<not> isDeleteEntry entry" and "tx' \<noteq> tx"
  shows "\<exists>r resource0 rt resourceID srcURL resource meta.
       Resource entry = Some r \<and> UnmarshalMap ext r = Inr resource0
     \<and> map_of resource0 ''resourceType'' = Some (JString rt)
     \<and> map_of resource0 ''id'' = Some (JString resourceID)
     \<and> BuildSourceURL ext base [rt, resourceID] = Inr srcURL
     \<and> tx' = tx @ [\<lparr>FullUrl = None, Resource = Some resource,
                     Request = Some \<lparr>Method = HTTPVerbPUT,
                                      Url = sourceRequestUrl ext rt srcURL\<rparr>,
                     Response = None\<rparr>]
     \<and> map_of resource ''meta'' = Some (JObject meta)
     \<and> map_of meta ''source'' = Some (JString srcURL)
     \<and> map_of resource ''id'' = None"
proof -
  from assms obtain fullUrl rq r where e:
    "FullUrl entry = Some fullUrl" "Request entry = Some rq" "Method rq \<noteq> HTTPVerbDELETE"
    "Resource entry = Some r"
    "buildPut ext tx fullUrl r allowed pom hcs isDisc base = (tx', res)"
    by (auto simp: buildUpdateTransaction_def isDeleteEntry_def split: option.splits if_splits)
  from buildPut_cases[OF e(5)] assms(3) obtain rt resource0 resourceID srcURL resource where f:
    "UnmarshalMap ext r = Inr resource0"
    "map_of resource0 ''resourceType'' = Some (JString rt)"
    "map_of resource0 ''id'' = Some (JString resourceID)"
    "BuildSourceURL ext base [rt, resourceID] = Inr srcURL"
    "convertMap ext (AList.delete ''id'' (updateResourceMeta
        (stripName rt isDisc resource0) srcURL)) base = Inr resource"
    "tx' = tx @ [\<lparr>FullUrl = None, Resource = Some resource,
                   Request = Some \<lparr>Method = HTTPVerbPUT,
                                    Url = sourceRequestUrl ext rt srcURL\<rparr>,
                   Response = None\<rparr>]"
    by blast
  from emitted_resource[OF f(5)] obtain meta where m:
    "map_of resource ''id'' = None" "map_of resource ''meta'' = Some (JObject meta)"
    "map_of meta ''source'' = Some (JString srcURL)"
    by blast
  show ?thesis using e(4) f(1,2,3,4,6) m by blast
qed








lemma escape_dir_C:
  "example_QueryEscape ''http://dir.example.org/fhir/Organization/C'' =
     ''http%3A%2F%2Fdir.example.org%2Ffhir%2FOrganization%2FC''"
  by (simp add: example_QueryEscape_def example_escape_char_def hex_char_def)

lemma escape_dir_B:
  "example_QueryEscape ''http://dir.example.org/fhir/Organization/B'' =
     ''http%3A%2F%2Fdir.example.org%2Ffhir%2FOrganization%2FB''"
  by (simp add: example_QueryEscape_def example_escape_char_def hex_char_def)

lemma escape_root_ep:
  "example_QueryEscape ''http://root.example.org/fhir/Endpoint/ep-1'' =
     ''http%3A%2F%2Froot.example.org%2Ffhir%2FEndpoint%2Fep-1''"
  by (simp add: example_QueryEscape_def example_escape_char_def hex_char_def)

lemma build_putOrgC:
  "buildUpdateTransaction exampleExternals [] putOrgC defaultDirectoryResourceTypes [] []
     False ''http://dir.example.org/fhir'' =
   ([\<lparr>FullUrl = None,
      Resource = Some
         [(''resourceType'', JString ''Organization''),
          (''identifier'', JArray []),
          (''partOf'', JObject [(''reference'', JString
               ''Organization?_source=http%3A%2F%2Fdir.example.org%2Ffhir%2FOrganization%2FB'')]),
          (''endpoint'', JArray []),
          (''meta'', JObject [(''source'',
              JString ''http://dir.example.org/fhir/Organization/C'')])],
      Request = Some \<lparr>Method = HTTPVerbPUT,
            Url = ''Organization?_source=http%3A%2F%2Fdir.example.org%2Ffhir%2FOrganization%2FC''\<rparr>,
      Response = None\<rparr>],
    Inr ''Organization'')"
  by (simp add: buildUpdateTransaction_def putOrgC_def buildPut_def organizationDoc_def
      orgC_def exampleExternals_def doSync_def stripName_def hasURAIdentifier_def
      emitPut_def example_BuildSourceURL_def updateResourceMeta_def convertMap_def
      convertedReference_def sourceRequestUrl_def jsonReference_def
      escape_dir_C escape_dir_B)

lemma build_putDirectoryEndpoint:
  "buildUpdateTransaction exampleExternals [] putDirectoryEndpoint rootDirectoryResourceTypes
     [] [] True ''http://root.example.org/fhir'' =
   ([\<lparr>FullUrl = None,
      Resource = Some
         [(''resourceType'', JString ''Endpoint''),
          (''address'', JString ''https://directory.example.org/fhir''),
          (''payloadType'', JArray [JObject [(''coding'', JArray [JObject
                   [(''system'', JString MCSDPayloadTypeSystem),
                    (''code'', JString MCSDPayloadTypeDirectoryCode)]])]]),
          (''meta'', JObject [(''source'',
              JString ''http://root.example.org/fhir/Endpoint/ep-1'')])],
      Request = Some \<lparr>Method = HTTPVerbPUT,
            Url = ''Endpoint?_source=http%3A%2F%2Froot.example.org%2Ffhir%2FEndpoint%2Fep-1''\<rparr>,
      Response = None\<rparr>],
    Inr ''Endpoint'')"
  by (simp add: buildUpdateTransaction_def putDirectoryEndpoint_def buildPut_def endpointDoc_def
      directoryEndpoint_def exampleExternals_def doSync_def stripName_def
      emitPut_def example_BuildSourceURL_def updateResourceMeta_def convertMap_def
      convertedReference_def sourceRequestUrl_def jsonCoding_def PayloadCoding_def
      example_CodablesIncludesCode_def escape_root_ep)

lemma build_putOrgA:
  "buildUpdateTransaction exampleExternals [] putOrgA rootDirectoryResourceTypes
     [] [] True ''http://root.example.org/fhir'' = ([], Inr ''Organization'')"
  by (simp add: buildUpdateTransaction_def putOrgA_def buildPut_def organizationDoc_def
      orgA_def exampleExternals_def doSync_def)

text \<open>The theorem of C2 at the Organization \<open>C\<close> of a provider directory.\<close>

theorem put_entry_meta_source_and_no_id_witness:
  "map (\<lambda>e. map_option (\<lambda>resource. (map_of resource ''id'', map_of resource ''meta''))
              (Resource e))
     (fst (buildUpdateTransaction exampleExternals [] putOrgC defaultDirectoryResourceTypes
        [] [] False ''http://dir.example.org/fhir''))
   = [Some (None, Some (JObject [(''source'',
         JString ''http://dir.example.org/fhir/Organization/C'')]))]"
proof -
  have d: "\<not> isDeleteEntry putOrgC"
    by (simp add: isDeleteEntry_def putOrgC_def)
  have n: "[\<lparr>FullUrl = None,
      Resource = Some
         [(''resourceType'', JString ''Organization''),
          (''identifier'', JArray []),
          (''partOf'', JObject [(''reference'', JString
               ''Organization?_source=http%3A%2F%2Fdir.example.org%2Ffhir%2FOrganization%2FB'')]),
          (''endpoint'', JArray []),
          (''meta'', JObject [(''source'',
              JString ''http://dir.example.org/fhir/Organization/C'')])],
      Request = Some \<lparr>Method = HTTPVerbPUT,
            Url = ''Organization?_source=http%3A%2F%2Fdir.example.org%2Ffhir%2FOrganization%2FC''\<rparr>,
      Response = None\<rparr>] \<noteq> ([] :: jsonObject BundleEntry list)"
    by simp
  from put_entry_meta_source_and_no_id[OF build_putOrgC d n]
  show ?thesis by (simp add: build_putOrgC)
qed







subsection \<open>Cursor and errors of a sync (C4, C6)\<close>







lemma historyLoop_gone:
  "j < length types \<Longrightarrow>
   \<forall>n<j. \<exists>v. queryHistory (answerHistory ans (i0 + n) (types ! n) since) = Inr v \<Longrightarrow>
   queryHistory (answerHistory ans (i0 + j) (types ! j) since) = Inl e \<Longrightarrow>
   is410GoneError e \<Longrightarrow>
   historyLoop ans False since i0 types es first =
     Inl (''410 Gone: history too old for '' @ types ! j @
          '' and Snapshot Mode is disabled, cannot sync'')"
proof (induction types arbitrary: j i0 es first)
  case Nil
  then show ?case by simp
next
  case (Cons t types)
  show ?case
  proof (cases j)
    case 0
    then show ?thesis using Cons.prems by simp
  next
    case (Suc j')
    from Cons.prems(2) Suc obtain v where v:
      "queryHistory (answerHistory ans i0 t since) = Inr v"
      by (metis add.right_neutral nth_Cons_0 zero_less_Suc)
    obtain cur curSet where cv: "v = (cur, curSet)" by (cases v)
    have a: "j' < length types" using Cons.prems(1) Suc by simp
    have b: "\<forall>n<j'. \<exists>v. queryHistory (answerHistory ans (Suc i0 + n) (types ! n) since) = Inr v"
    proof (intro allI impI)
      fix n assume "n < j'"
      then have "Suc n < j" using Suc by simp
      from Cons.prems(2)[rule_format, OF this] show
        "\<exists>v. queryHistory (answerHistory ans (Suc i0 + n) (types ! n) since) = Inr v"
        by simp
    qed
    have c: "queryHistory (answerHistory ans (Suc i0 + j') (types ! j') since) = Inl e"
      using Cons.prems(3) Suc by simp
    from Cons.IH[OF a b c Cons.prems(4)] show ?thesis
      using v cv Suc by simp
  qed
qed









lemma updateFromDirectory_gone:
  assumes "\<not> SnapshotModeSupport (config c)"
    and "url_Parse ext base = Inr u1" and "url_Parse ext (QueryDirectory (config c)) = Inr u2"
    and "j < length types"
    and "\<forall>n<j. \<exists>v. queryHistory (answerHistory ans n (types ! n)
           (lastUpdateTimes c (makeDirectoryKey base ura))) = Inr v"
    and "queryHistory (answerHistory ans j (types ! j)
           (lastUpdateTimes c (makeDirectoryKey base ura))) = Inl e"
    and "is410GoneError e"
  shows "updateFromDirectory ext ans c base types disc ura =
     (c, emptyReport, Some (''410 Gone: history too old for '' @ types ! j @
          '' and Snapshot Mode is disabled, cannot sync''))"
proof -
  have "historyLoop ans False (lastUpdateTimes c (makeDirectoryKey base ura)) 0 types []
      emptyBundle = Inl (''410 Gone: history too old for '' @ types ! j @
          '' and Snapshot Mode is disabled, cannot sync'')"
    using historyLoop_gone[of j types ans 0, OF assms(4) _ _ assms(7)] assms(5,6) by simp
  then show ?thesis using assms(1,2,3)
    by (simp add: updateFromDirectory_def Let_def)
qed

text \<open>
  C6. Let the source at index \<open>i\<close> of the registry be synced while snapshot mode is not
  supported, and let its \<^verbatim>\<open>_history\<close> query for the \<open>j\<close>-th resource type fail with a
  410-Gone error, the queries before it having succeeded. Then the sync of that source
  returns the fatal error "410 Gone: history too old ...", with the component (cursor map
  and registry) unchanged; the run records a report with that error under the source's
  key and goes on with the next source, in the unchanged component.
\<close>

theorem gone_without_snapshot_is_fatal_for_the_source_only:
  assumes "i < length (administrationDirectories c)"
    and "dir = administrationDirectories c ! i"
    and "key = makeDirectoryKey (fhirBaseURL dir) (authoritativeUra dir)"
    and "\<not> SnapshotModeSupport (config c)"
    and "url_Parse ext (fhirBaseURL dir) = Inr u1"
    and "url_Parse ext (QueryDirectory (config c)) = Inr u2"
    and "j < length (resourceTypes dir)"
    and "\<forall>n<j. \<exists>v. queryHistory (answerHistory (world i) n (resourceTypes dir ! n)
           (lastUpdateTimes c key)) = Inr v"
    and "queryHistory (answerHistory (world i) j (resourceTypes dir ! j)
           (lastUpdateTimes c key)) = Inl e"
    and "is410GoneError e"
  shows "updateFromDirectory ext (world i) c (fhirBaseURL dir) (resourceTypes dir)
       (discover dir) (authoritativeUra dir)
     = (c, emptyReport, Some (''410 Gone: history too old for '' @ resourceTypes dir ! j @
          '' and Snapshot Mode is disabled, cannot sync''))
   \<and> updateLoop ext world c result i =
       updateLoop ext world c
         (result(key \<mapsto> emptyReport\<lparr>Errors :=
            [''410 Gone: history too old for '' @ resourceTypes dir ! j @
             '' and Snapshot Mode is disabled, cannot sync'']\<rparr>))
         (Suc i)"
proof -
  have u: "updateFromDirectory ext (world i) c (fhirBaseURL dir) (resourceTypes dir)
       (discover dir) (authoritativeUra dir)
     = (c, emptyReport, Some (''410 Gone: history too old for '' @ resourceTypes dir ! j @
          '' and Snapshot Mode is disabled, cannot sync''))"
    using updateFromDirectory_gone[OF assms(4,5,6,7), of "world i" "authoritativeUra dir" e
        "discover dir"] assms(3,8,9,10)
    by simp
  have s: "updateStep ext (world i) c result i =
      (c, result(key \<mapsto> emptyReport\<lparr>Errors :=
            [''410 Gone: history too old for '' @ resourceTypes dir ! j @
             '' and Snapshot Mode is disabled, cannot sync'']\<rparr>))"
    using u assms(2,3) by (simp add: updateStep_def Let_def emptyReport_def)
  show ?thesis
    using u s assms(1) by (subst updateLoop.simps) simp
qed

lemma failed_history:
  "queryHistory (failedSearch ''unexpected status 410 Gone'') =
     Inl ''_history search failed: unexpected status 410 Gone''"
  by (simp add: queryHistory_def queryFHIR_def failedSearch_def)


lemma one_page_query:
  "length entries < 1000 \<Longrightarrow>
   query (onePage entries lastUpdated) =
     Inr (entries, \<lparr>Entry = entries, Meta = Some \<lparr>MetaLastUpdated = lastUpdated\<rparr>\<rparr>)"
  by (simp add: query_def queryFHIR_def onePage_def maxUpdateEntries_def)

lemma one_page_history:
  "length entries < 1000 \<Longrightarrow>
   queryHistory (onePage entries lastUpdated) =
     Inr (entries, \<lparr>Entry = entries, Meta = Some \<lparr>MetaLastUpdated = lastUpdated\<rparr>\<rparr>)"
  by (simp add: queryHistory_def queryFHIR_def onePage_def maxUpdateEntries_def)

lemma gone_is_410: "is410GoneError ''_history search failed: unexpected status 410 Gone''"
  by (simp add: is410GoneError_def strings_HasPrefix_def)

lemma parse_examples:
  "url_Parse exampleExternals ''http://dir.example.org/fhir'' =
     Inr \<lparr>Scheme = ''http'', Host = ''dir.example.org''\<rparr>"
  "url_Parse exampleExternals ''http://localhost:8080/fhir'' =
     Inr \<lparr>Scheme = ''http'', Host = ''localhost:8080''\<rparr>"
  by (simp_all add: exampleExternals_def example_Parse_def)

lemma providerComponent_fields:
  "QueryDirectory (config (providerComponent b)) = ''http://localhost:8080/fhir''"
  "SnapshotModeSupport (config (providerComponent b)) = b"
  "lastUpdateTimes (providerComponent b) =
     [''http://dir.example.org/fhir|100'' \<mapsto> ''2025-01-01T00:00:00Z'']"
  "administrationDirectories (providerComponent b) = [providerDirectory]"
  by (simp_all add: providerComponent_def)


lemma sync_gone_no_snapshot:
  "updateFromDirectory exampleExternals goneAnswers (providerComponent False)
     ''http://dir.example.org/fhir'' [''Organization''] False ''100'' =
   (providerComponent False, emptyReport,
    Some ''410 Gone: history too old for Organization and Snapshot Mode is disabled, cannot sync'')"
proof -
  have k: "makeDirectoryKey ''http://dir.example.org/fhir'' ''100'' = ''http://dir.example.org/fhir|100''"
    by (simp add: makeDirectoryKey_def)
  have h: "queryHistory (answerHistory goneAnswers 0 ''Organization''
      (Some ''2025-01-01T00:00:00Z'')) = Inl ''_history search failed: unexpected status 410 Gone''"
    by (simp add: goneAnswers_def failed_history)
  show ?thesis
    by (simp add: updateFromDirectory_def parse_examples k h gone_is_410
        providerComponent_fields Let_def)
qed












text \<open>The theorem of C6 at a run over the one provider directory: the run returns,
  with the component unchanged and the error in the directory's report.\<close>

theorem gone_without_snapshot_is_fatal_for_the_source_only_witness:
  "update exampleExternals (\<lambda>n. goneAnswers) (providerComponent False) =
     Some (providerComponent False,
           [''http://dir.example.org/fhir|100'' \<mapsto> emptyReport\<lparr>Errors :=
              [''410 Gone: history too old for Organization and Snapshot Mode is disabled, cannot sync'']\<rparr>])"
proof -
  have i: "0 < length (administrationDirectories (providerComponent False))"
    by (simp add: providerComponent_fields)
  have d: "providerDirectory = administrationDirectories (providerComponent False) ! 0"
    by (simp add: providerComponent_fields)
  have k: "''http://dir.example.org/fhir|100'' =
      makeDirectoryKey (fhirBaseURL providerDirectory) (authoritativeUra providerDirectory)"
    by (simp add: makeDirectoryKey_def providerDirectory_def)
  have s: "\<not> SnapshotModeSupport (config (providerComponent False))"
    by (simp add: providerComponent_fields)
  have p1: "url_Parse exampleExternals (fhirBaseURL providerDirectory) =
      Inr \<lparr>Scheme = ''http'', Host = ''dir.example.org''\<rparr>"
    by (simp add: providerDirectory_def parse_examples)
  have p2: "url_Parse exampleExternals (QueryDirectory (config (providerComponent False))) =
      Inr \<lparr>Scheme = ''http'', Host = ''localhost:8080''\<rparr>"
    by (simp add: providerComponent_fields parse_examples)
  have j: "0 < length (resourceTypes providerDirectory)"
    by (simp add: providerDirectory_def)
  have n: "\<forall>n<0. \<exists>v. queryHistory (answerHistory ((\<lambda>n. goneAnswers) 0) n
      (resourceTypes providerDirectory ! n)
      (lastUpdateTimes (providerComponent False) ''http://dir.example.org/fhir|100'')) = Inr v"
    by simp
  have h: "queryHistory (answerHistory ((\<lambda>n. goneAnswers) 0) 0
      (resourceTypes providerDirectory ! 0)
      (lastUpdateTimes (providerComponent False) ''http://dir.example.org/fhir|100''))
    = Inl ''_history search failed: unexpected status 410 Gone''"
    by (simp add: goneAnswers_def failed_history)
  have t: "resourceTypes providerDirectory ! 0 = ''Organization''"
    by (simp add: providerDirectory_def)
  from gone_without_snapshot_is_fatal_for_the_source_only[OF i d k s p1 p2 j n h gone_is_410,
      of Map.empty]
  have "updateLoop exampleExternals (\<lambda>n. goneAnswers) (providerComponent False) Map.empty 0 =
      updateLoop exampleExternals (\<lambda>n. goneAnswers) (providerComponent False)
        [''http://dir.example.org/fhir|100'' \<mapsto> emptyReport\<lparr>Errors :=
              [''410 Gone: history too old for Organization and Snapshot Mode is disabled, cannot sync'']\<rparr>]
        (Suc 0)"
    by (simp add: t)
  also have "\<dots> = Some (providerComponent False,
           [''http://dir.example.org/fhir|100'' \<mapsto> emptyReport\<lparr>Errors :=
              [''410 Gone: history too old for Organization and Snapshot Mode is disabled, cannot sync'']\<rparr>])"
    by (subst updateLoop.simps) (simp add: providerComponent_fields)
  finally show ?thesis by (simp add: update_def)
qed

subsection \<open>The run over all directories (C7)\<close>

lemma root_parse:
  "url_Parse exampleExternals ''http://root.example.org/fhir'' =
     Inr \<lparr>Scheme = ''http'', Host = ''root.example.org''\<rparr>"
  "url_Parse exampleExternals ''https://directory.example.org/fhir'' =
     Inr \<lparr>Scheme = ''https'', Host = ''directory.example.org''\<rparr>"
  by (simp_all add: exampleExternals_def example_Parse_def)

lemma syncedRootComponent_fields:
  "QueryDirectory (config syncedRootComponent) = ''http://localhost:8080/fhir''"
  "SnapshotModeSupport (config syncedRootComponent) = True"
  "ExcludeAdminDirectories (config syncedRootComponent) = []"
  "lastUpdateTimes syncedRootComponent =
     [''http://root.example.org/fhir'' \<mapsto> ''2025-01-01T00:00:00Z'']"
  "administrationDirectories syncedRootComponent = [rootDirectory]"
  "directoryResourceTypes syncedRootComponent = defaultDirectoryResourceTypes"
  by (simp_all add: syncedRootComponent_def rootComponent_def rootConfig_def)

lemma root_feed_ids:
  "entryResourceID exampleExternals putRootOrgA = ''A''"
  "entryResourceID exampleExternals putDirectoryEndpoint = ''ep-1''"
  "entryResourceID exampleExternals deleteEndpoint1 = ''1''"
  by (simp_all add: entryResourceID_def extractResourceIDFromURL_def putRootOrgA_def
      putDirectoryEndpoint_def deleteEndpoint1_def organizationDoc_def endpointDoc_def
      rootOrgA_def orgA_def directoryEndpoint_def exampleExternals_def)

lemma root_feed_dedup:
  "deduplicateHistoryEntries exampleExternals [putRootOrgA, putDirectoryEndpoint, deleteEndpoint1]
     = [putRootOrgA, putDirectoryEndpoint, deleteEndpoint1]"
  by (simp add: deduplicateHistoryEntries_def dedupStep_def Let_def root_feed_ids)

lemma root_feed_deletes:
  "\<not> isEndpointDelete putRootOrgA" "\<not> isEndpointDelete putDirectoryEndpoint"
  "isEndpointDelete deleteEndpoint1" "FullUrl deleteEndpoint1 = Some []"
  by (simp_all add: isEndpointDelete_def putRootOrgA_def putDirectoryEndpoint_def
      deleteEndpoint1_def)

lemma root_feed_preScan:
  "preScan exampleExternals syncedRootComponent True
     [putRootOrgA, putDirectoryEndpoint, deleteEndpoint1] =
   syncedRootComponent\<lparr>administrationDirectories := []\<rparr>"
  by (simp add: preScan_def root_feed_dedup root_feed_deletes
      unregisterAdministrationDirectory_def syncedRootComponent_fields rootDirectory_def)

lemma root_tree:
  "ensureParentOrganizationsMap exampleExternals rootAnswers [] = Inr [(rootOrgA, [])]"
  by (simp add: ensureParentOrganizationsMap_def rootAnswers_def one_page_query
      createOrganizationTree_def listedRootOrgA_def organizationDoc_def
      exampleExternals_def rootOrgA_def orgA_def findOrganizationsLinkedToParent_def)

lemma root_build_org:
  "buildUpdateTransaction exampleExternals tx putRootOrgA rootDirectoryResourceTypes
     pom hcs True ''http://root.example.org/fhir'' = (tx, Inr ''Organization'')"
  by (simp add: buildUpdateTransaction_def putRootOrgA_def buildPut_def organizationDoc_def
      rootOrgA_def orgA_def exampleExternals_def doSync_def)

lemma root_build_endpoint:
  "\<exists>e. buildUpdateTransaction exampleExternals tx putDirectoryEndpoint rootDirectoryResourceTypes
     pom hcs True ''http://root.example.org/fhir'' = (tx @ [e], Inr ''Endpoint'')"
  by (simp add: buildUpdateTransaction_def putDirectoryEndpoint_def buildPut_def endpointDoc_def
      directoryEndpoint_def exampleExternals_def doSync_def stripName_def
      emitPut_def example_BuildSourceURL_def updateResourceMeta_def convertMap_def
      convertedReference_def jsonCoding_def PayloadCoding_def
      example_CodablesIncludesCode_def)

lemma root_build_delete:
  "\<exists>e. buildUpdateTransaction exampleExternals tx deleteEndpoint1 rootDirectoryResourceTypes
     pom hcs True ''http://root.example.org/fhir'' = (tx @ [e], Inr ''Endpoint'')"
  by (simp add: buildUpdateTransaction_def deleteEndpoint1_def buildDelete_def Let_def
      rootDirectoryResourceTypes_def exampleExternals_def example_BuildSourceURL_def)

lemma root_transaction:
  "\<exists>e1 e2. buildTransactionLoop exampleExternals 0
     [putRootOrgA, putDirectoryEndpoint, deleteEndpoint1] rootDirectoryResourceTypes
     pom hcs True ''http://root.example.org/fhir'' ([], emptyReport) = ([e1, e2], emptyReport)"
proof -
  obtain e1 where e1: "buildUpdateTransaction exampleExternals [] putDirectoryEndpoint
     rootDirectoryResourceTypes pom hcs True ''http://root.example.org/fhir''
     = ([] @ [e1], Inr ''Endpoint'')"
    using root_build_endpoint by blast
  obtain e2 where e2: "buildUpdateTransaction exampleExternals [e1] deleteEndpoint1
     rootDirectoryResourceTypes pom hcs True ''http://root.example.org/fhir''
     = ([e1] @ [e2], Inr ''Endpoint'')"
    using root_build_delete by blast
  have r: "(Request putRootOrgA = None) = False" "(Request putDirectoryEndpoint = None) = False"
    "(Request deleteEndpoint1 = None) = False"
    by (simp_all add: putRootOrgA_def putDirectoryEndpoint_def deleteEndpoint1_def)
  show ?thesis
    using e1 e2 by (simp add: root_build_org r)
qed

lemma root_discovery:
  "discoverAndRegisterEndpoints exampleExternals
     [putRootOrgA, putDirectoryEndpoint, deleteEndpoint1] [(rootOrgA, [])]
     (syncedRootComponent\<lparr>administrationDirectories := []\<rparr>, report) =
   (syncedRootComponent\<lparr>administrationDirectories := [discoveredDirectory]\<rparr>, report)"
proof -
  have e: "referencedEndpoints exampleExternals rootOrgA
      [putRootOrgA, putDirectoryEndpoint, deleteEndpoint1] [] =
      [(''http://root.example.org/fhir/Endpoint/ep-1'', directoryEndpoint)]"
    by (simp add: putRootOrgA_def putDirectoryEndpoint_def deleteEndpoint1_def
        organizationDoc_def endpointDoc_def rootOrgA_def orgA_def directoryEndpoint_def
        exampleExternals_def)
  have c: "CodablesIncludesCode exampleExternals (PayloadType directoryEndpoint) PayloadCoding"
    by (simp add: exampleExternals_def example_CodablesIncludesCode_def directoryEndpoint_def)
  have a: "Address directoryEndpoint = ''https://directory.example.org/fhir''"
    by (simp add: directoryEndpoint_def)
  have l: "strings_ToLower ''https'' = ''https''"
    by (simp add: strings_ToLower_def lower_char_def)
  have g: "registerAdministrationDirectory exampleExternals
      (syncedRootComponent\<lparr>administrationDirectories := []\<rparr>)
      ''https://directory.example.org/fhir'' defaultDirectoryResourceTypes False
      ''http://root.example.org/fhir/Endpoint/ep-1'' ''100'' =
      Inr (syncedRootComponent\<lparr>administrationDirectories := [discoveredDirectory]\<rparr>)"
    by (simp add: registerAdministrationDirectory_def root_parse l syncedRootComponent_fields
        discoveredDirectory_def)
  have f: "FilterIdentifiersBySystem exampleExternals (OrgIdentifier rootOrgA) URANamingSystem
      = [\<lparr>System = Some URANamingSystem, Value = Some ''100''\<rparr>]"
    by (simp add: exampleExternals_def rootOrgA_def orgA_def)
  have o: "OrgEndpoint rootOrgA \<noteq> []" by (simp add: rootOrgA_def)
  show ?thesis
    by (simp add: f o e c a g syncedRootComponent_fields del: referencedEndpoints.simps)
qed

lemma root_history:
  "historyLoop rootAnswers True (Some ''2025-01-01T00:00:00Z'') 0 rootDirectoryResourceTypes []
     emptyBundle =
   Inr (False, [putRootOrgA, putDirectoryEndpoint, deleteEndpoint1],
        \<lparr>Entry = [putRootOrgA], Meta = Some \<lparr>MetaLastUpdated = None\<rparr>\<rparr>)"
  by (simp add: rootDirectoryResourceTypes_def rootAnswers_def one_page_history)

lemma root_sync:
  "updateFromDirectory exampleExternals rootAnswers syncedRootComponent
     ''http://root.example.org/fhir'' rootDirectoryResourceTypes True [] =
   (syncedRootComponent\<lparr>administrationDirectories := [discoveredDirectory],
       lastUpdateTimes := [''http://root.example.org/fhir'' \<mapsto> ''2025-06-01T00:00:00Z'']\<rparr>,
    emptyReport\<lparr>CountCreated := 1\<rparr>, None)"
proof -
  have k: "makeDirectoryKey ''http://root.example.org/fhir'' [] = ''http://root.example.org/fhir''"
    by (simp add: makeDirectoryKey_def)
  define hcs where "hcs = filter (\<lambda>entry. case Resource entry of None \<Rightarrow> False
                       | Some r \<Rightarrow> UnmarshalHealthcareService exampleExternals r)
        [putRootOrgA, putDirectoryEndpoint, deleteEndpoint1]"
  obtain e1 e2 where tx: "buildTransactionLoop exampleExternals 0
     [putRootOrgA, putDirectoryEndpoint, deleteEndpoint1] rootDirectoryResourceTypes
     [(rootOrgA, [])] hcs
     True ''http://root.example.org/fhir'' ([], emptyReport) = ([e1, e2], emptyReport)"
    using root_transaction by blast
  have v: "ValidateParentOrganizations exampleExternals [(rootOrgA, [])] = None"
    by (simp add: exampleExternals_def)
  have t: "answerTransaction rootAnswers [e1, e2] = Inr created"
    "localTime rootAnswers = ''2025-06-01T00:00:00Z''"
    by (simp_all add: rootAnswers_def)
  have r: "processResult exampleExternals 0 (Entry created) emptyReport =
      emptyReport\<lparr>CountCreated := 1\<rparr>"
    by (simp add: created_def emptyReport_def strings_HasPrefix_def)
  have a: "applyEntries exampleExternals rootAnswers syncedRootComponent
      ''http://root.example.org/fhir'' rootDirectoryResourceTypes True []
      [putRootOrgA, putDirectoryEndpoint, deleteEndpoint1]
      \<lparr>Entry = [putRootOrgA], Meta = Some \<lparr>MetaLastUpdated = None\<rparr>\<rparr> =
    (syncedRootComponent\<lparr>administrationDirectories := [discoveredDirectory],
       lastUpdateTimes := [''http://root.example.org/fhir'' \<mapsto> ''2025-06-01T00:00:00Z'']\<rparr>,
     emptyReport\<lparr>CountCreated := 1\<rparr>, None)"
    unfolding applyEntries_def Let_def k root_tree root_feed_dedup root_feed_preScan
      hcs_def [symmetric]
    by (simp add: v tx root_discovery t r syncedRootComponent_fields
        del: buildTransactionLoop.simps discoverAndRegisterEndpoints.simps)
  show ?thesis
    by (simp add: updateFromDirectory_def root_parse parse_examples k Let_def
        syncedRootComponent_fields root_history a)
qed

text \<open>C7. The run walks the registry by index and reads its length anew in every round, so
  a directory appended by discovery is reached in the same run as long as the registry does
  not shrink at or before the current index. It can shrink there: the root below has a cursor
  and its \<^verbatim>\<open>_history\<close> feed holds an Organization with URA 100 that references
  \<^verbatim>\<open>Endpoint/ep-1\<close>, that mCSD directory Endpoint, and a DELETE of \<^verbatim>\<open>Endpoint/1\<close> whose
  \<^verbatim>\<open>fullUrl\<close> is the empty string. The pre-scan unregisters the root (its \<^verbatim>\<open>sourceURL\<close> is
  empty), discovery appends the directory of \<^verbatim>\<open>ep-1\<close>, which lands at index 0, and the
  loop moves on to index 1, which is the length of the registry: the run ends, the directory
  that discovery appended during the run was not processed and has no report.\<close>

theorem run_skips_directory_discovered_in_the_run:
  "update exampleExternals (\<lambda>n. rootAnswers) syncedRootComponent =
     Some (syncedRootComponent\<lparr>administrationDirectories := [discoveredDirectory],
             lastUpdateTimes :=
               [''http://root.example.org/fhir'' \<mapsto> ''2025-06-01T00:00:00Z'']\<rparr>,
           [''http://root.example.org/fhir'' \<mapsto> emptyReport\<lparr>CountCreated := 1\<rparr>])
   \<and> administrationDirectories syncedRootComponent = [rootDirectory]
   \<and> makeDirectoryKey (fhirBaseURL discoveredDirectory) (authoritativeUra discoveredDirectory)
       = ''https://directory.example.org/fhir|100''
   \<and> [''http://root.example.org/fhir'' \<mapsto> emptyReport\<lparr>CountCreated := 1\<rparr>]
         ''https://directory.example.org/fhir|100'' = None"
proof -
  have s: "updateStep exampleExternals rootAnswers syncedRootComponent Map.empty 0 =
      (syncedRootComponent\<lparr>administrationDirectories := [discoveredDirectory],
             lastUpdateTimes :=
               [''http://root.example.org/fhir'' \<mapsto> ''2025-06-01T00:00:00Z'']\<rparr>,
       [''http://root.example.org/fhir'' \<mapsto> emptyReport\<lparr>CountCreated := 1\<rparr>])"
    by (simp add: updateStep_def syncedRootComponent_fields rootDirectory_def root_sync
        makeDirectoryKey_def)
  have "updateLoop exampleExternals (\<lambda>n. rootAnswers) syncedRootComponent Map.empty 0 =
      updateLoop exampleExternals (\<lambda>n. rootAnswers)
        (syncedRootComponent\<lparr>administrationDirectories := [discoveredDirectory],
             lastUpdateTimes :=
               [''http://root.example.org/fhir'' \<mapsto> ''2025-06-01T00:00:00Z'']\<rparr>)
        [''http://root.example.org/fhir'' \<mapsto> emptyReport\<lparr>CountCreated := 1\<rparr>] (Suc 0)"
    by (subst updateLoop.simps) (simp add: syncedRootComponent_fields s)
  also have "\<dots> = Some (syncedRootComponent\<lparr>administrationDirectories := [discoveredDirectory],
             lastUpdateTimes :=
               [''http://root.example.org/fhir'' \<mapsto> ''2025-06-01T00:00:00Z'']\<rparr>,
           [''http://root.example.org/fhir'' \<mapsto> emptyReport\<lparr>CountCreated := 1\<rparr>])"
    by (subst updateLoop.simps) simp
  finally show ?thesis
    by (simp add: update_def syncedRootComponent_fields discoveredDirectory_def
        makeDirectoryKey_def)
qed

subsection \<open>Runs in which the registry does not shrink\<close>

lemma steadyRun_returns:
  "steadyRun ext world c result i out \<Longrightarrow> updateLoop ext world c result i = Some out"
proof (induction rule: steadyRun.induct)
  case (steadyEnd i c result)
  then show ?case by (subst updateLoop.simps) simp
next
  case (steadyStep i c result c1 result1 out)
  then show ?case by (subst updateLoop.simps) simp
qed

lemma updateStep_result:
  "updateStep ext ans c result i = (c1, result1) \<Longrightarrow>
   dom result1 = insert (directoryKey (administrationDirectories c ! i)) (dom result)"
  by (auto simp: updateStep_def Let_def directoryKey_def split: prod.splits)

lemma steadyRun_reports:
  "steadyRun ext world c result i out \<Longrightarrow>
   \<forall>j<i. j < length (administrationDirectories c) \<longrightarrow>
      directoryKey (administrationDirectories c ! j) \<in> dom result \<Longrightarrow>
   \<forall>d \<in> set (administrationDirectories (fst out)). directoryKey d \<in> dom (snd out)"
proof (induction rule: steadyRun.induct)
  case (steadyEnd i c result)
  show ?case
  proof
    fix d assume "d \<in> set (administrationDirectories (fst (c, result)))"
    then obtain j where j: "j < length (administrationDirectories c)"
        "d = administrationDirectories c ! j"
      by (auto simp: in_set_conv_nth)
    then have "j < i" using steadyEnd.hyps by simp
    then show "directoryKey d \<in> dom (snd (c, result))"
      using steadyEnd.prems j by simp
  qed
next
  case (steadyStep i c result c1 result1 out)
  have d: "dom result1 = insert (directoryKey (administrationDirectories c ! i)) (dom result)"
    using steadyStep.hyps(2) by (rule updateStep_result)
  have n: "administrationDirectories c1 ! j = administrationDirectories c ! j" if "j < Suc i" for j
  proof -
    have "administrationDirectories c1 ! j = take (Suc i) (administrationDirectories c1) ! j"
      using that by simp
    also have "\<dots> = take (Suc i) (administrationDirectories c) ! j"
      using steadyStep.hyps(3) by simp
    also have "\<dots> = administrationDirectories c ! j" using that by simp
    finally show ?thesis .
  qed
  have l: "length (administrationDirectories c) \<le> length (administrationDirectories c1)
      \<or> Suc i \<le> length (administrationDirectories c1)"
  proof -
    have "length (take (Suc i) (administrationDirectories c1)) =
        length (take (Suc i) (administrationDirectories c))"
      using steadyStep.hyps(3) by simp
    then show ?thesis using steadyStep.hyps(1) by auto
  qed
  show ?case
  proof (rule steadyStep.IH, intro allI impI)
    fix j assume j: "j < Suc i" "j < length (administrationDirectories c1)"
    show "directoryKey (administrationDirectories c1 ! j) \<in> dom result1"
    proof (cases "j = i")
      case True
      then show ?thesis using n[OF j(1)] d by simp
    next
      case False
      then have ji: "j < i" using j(1) by simp
      then have "j < length (administrationDirectories c)" using steadyStep.hyps(1) by simp
      then have "directoryKey (administrationDirectories c ! j) \<in> dom result"
        using steadyStep.prems ji by simp
      then show ?thesis using n[OF j(1)] d by simp
    qed
  qed
qed

text \<open>What the loop of \<^verbatim>\<open>update\<close> does guarantee: a run in which no round removes a
  registry entry at or before its own index returns, and every directory of the registry it
  leaves behind, the ones that discovery appended during the run among them, has its
  report.\<close>

theorem steady_run_reports_every_directory:
  assumes "steadyRun ext world c Map.empty 0 (c', result)"
  shows "update ext world c = Some (c', result)
     \<and> (\<forall>d \<in> set (administrationDirectories c'). result (directoryKey d) \<noteq> None)"
proof -
  have "update ext world c = Some (c', result)"
    using steadyRun_returns[OF assms] by (simp add: update_def)
  moreover have "\<forall>d \<in> set (administrationDirectories (fst (c', result))).
      directoryKey d \<in> dom (snd (c', result))"
    using assms by (rule steadyRun_reports) simp
  ultimately show ?thesis by (auto simp: dom_def)
qed

lemma discovery_feed_dedup:
  "deduplicateHistoryEntries exampleExternals [putRootOrgA, putDirectoryEndpoint]
     = [putRootOrgA, putDirectoryEndpoint]"
  by (simp add: deduplicateHistoryEntries_def dedupStep_def Let_def root_feed_ids)

lemma discovery_feed_preScan:
  "preScan exampleExternals syncedRootComponent True [putRootOrgA, putDirectoryEndpoint] =
   syncedRootComponent"
  by (simp add: preScan_def discovery_feed_dedup root_feed_deletes)

lemma discovery_tree:
  "ensureParentOrganizationsMap exampleExternals discoveryAnswers [] = Inr [(rootOrgA, [])]"
  "ensureParentOrganizationsMap exampleExternals discoveryAnswers ''100'' = Inr [(rootOrgA, [])]"
  by (simp_all add: ensureParentOrganizationsMap_def discoveryAnswers_def one_page_query
      createOrganizationTree_def listedRootOrgA_def organizationDoc_def
      exampleExternals_def rootOrgA_def orgA_def findOrganizationsLinkedToParent_def)

lemma discovery_transaction:
  "\<exists>e1. buildTransactionLoop exampleExternals 0
     [putRootOrgA, putDirectoryEndpoint] rootDirectoryResourceTypes
     pom hcs True ''http://root.example.org/fhir'' ([], emptyReport) = ([e1], emptyReport)"
proof -
  obtain e1 where e1: "buildUpdateTransaction exampleExternals [] putDirectoryEndpoint
     rootDirectoryResourceTypes pom hcs True ''http://root.example.org/fhir''
     = ([] @ [e1], Inr ''Endpoint'')"
    using root_build_endpoint by blast
  have r: "(Request putRootOrgA = None) = False" "(Request putDirectoryEndpoint = None) = False"
    by (simp_all add: putRootOrgA_def putDirectoryEndpoint_def)
  show ?thesis
    using e1 by (simp add: root_build_org r)
qed

lemma discovery_register:
  "discoverAndRegisterEndpoints exampleExternals
     [putRootOrgA, putDirectoryEndpoint] [(rootOrgA, [])] (syncedRootComponent, report) =
   (syncedRootComponent\<lparr>administrationDirectories := [rootDirectory, discoveredDirectory]\<rparr>,
    report)"
proof -
  have e: "referencedEndpoints exampleExternals rootOrgA
      [putRootOrgA, putDirectoryEndpoint] [] =
      [(''http://root.example.org/fhir/Endpoint/ep-1'', directoryEndpoint)]"
    by (simp add: putRootOrgA_def putDirectoryEndpoint_def
        organizationDoc_def endpointDoc_def rootOrgA_def orgA_def directoryEndpoint_def
        exampleExternals_def)
  have c: "CodablesIncludesCode exampleExternals (PayloadType directoryEndpoint) PayloadCoding"
    by (simp add: exampleExternals_def example_CodablesIncludesCode_def directoryEndpoint_def)
  have a: "Address directoryEndpoint = ''https://directory.example.org/fhir''"
    by (simp add: directoryEndpoint_def)
  have l: "strings_ToLower ''https'' = ''https''"
    by (simp add: strings_ToLower_def lower_char_def)
  have g: "registerAdministrationDirectory exampleExternals syncedRootComponent
      ''https://directory.example.org/fhir'' defaultDirectoryResourceTypes False
      ''http://root.example.org/fhir/Endpoint/ep-1'' ''100'' =
      Inr (syncedRootComponent\<lparr>administrationDirectories :=
             [rootDirectory, discoveredDirectory]\<rparr>)"
    by (simp add: registerAdministrationDirectory_def root_parse l syncedRootComponent_fields
        discoveredDirectory_def rootDirectory_def)
  have f: "FilterIdentifiersBySystem exampleExternals (OrgIdentifier rootOrgA) URANamingSystem
      = [\<lparr>System = Some URANamingSystem, Value = Some ''100''\<rparr>]"
    by (simp add: exampleExternals_def rootOrgA_def orgA_def)
  have o: "OrgEndpoint rootOrgA \<noteq> []" by (simp add: rootOrgA_def)
  show ?thesis
    by (simp add: f o e c a g syncedRootComponent_fields del: referencedEndpoints.simps)
qed

lemma discovery_history:
  "historyLoop discoveryAnswers True (Some ''2025-01-01T00:00:00Z'') 0
     rootDirectoryResourceTypes [] emptyBundle =
   Inr (False, [putRootOrgA, putDirectoryEndpoint],
        \<lparr>Entry = [putRootOrgA], Meta = Some \<lparr>MetaLastUpdated = None\<rparr>\<rparr>)"
  by (simp add: rootDirectoryResourceTypes_def discoveryAnswers_def one_page_history)

lemma discovery_root_sync:
  "updateFromDirectory exampleExternals discoveryAnswers syncedRootComponent
     ''http://root.example.org/fhir'' rootDirectoryResourceTypes True [] =
   (discoveredComponent, emptyReport\<lparr>CountCreated := 1\<rparr>, None)"
proof -
  have k: "makeDirectoryKey ''http://root.example.org/fhir'' [] = ''http://root.example.org/fhir''"
    by (simp add: makeDirectoryKey_def)
  define hcs where "hcs = filter (\<lambda>entry. case Resource entry of None \<Rightarrow> False
                       | Some r \<Rightarrow> UnmarshalHealthcareService exampleExternals r)
        [putRootOrgA, putDirectoryEndpoint]"
  obtain e1 where tx: "buildTransactionLoop exampleExternals 0
     [putRootOrgA, putDirectoryEndpoint] rootDirectoryResourceTypes
     [(rootOrgA, [])] hcs
     True ''http://root.example.org/fhir'' ([], emptyReport) = ([e1], emptyReport)"
    using discovery_transaction by blast
  have v: "ValidateParentOrganizations exampleExternals [(rootOrgA, [])] = None"
    by (simp add: exampleExternals_def)
  have t: "answerTransaction discoveryAnswers [e1] = Inr created"
    "localTime discoveryAnswers = ''2025-06-01T00:00:00Z''"
    by (simp_all add: discoveryAnswers_def)
  have r: "processResult exampleExternals 0 (Entry created) emptyReport =
      emptyReport\<lparr>CountCreated := 1\<rparr>"
    by (simp add: created_def emptyReport_def strings_HasPrefix_def)
  have a: "applyEntries exampleExternals discoveryAnswers syncedRootComponent
      ''http://root.example.org/fhir'' rootDirectoryResourceTypes True []
      [putRootOrgA, putDirectoryEndpoint]
      \<lparr>Entry = [putRootOrgA], Meta = Some \<lparr>MetaLastUpdated = None\<rparr>\<rparr> =
    (discoveredComponent, emptyReport\<lparr>CountCreated := 1\<rparr>, None)"
    unfolding applyEntries_def Let_def k discovery_tree discovery_feed_dedup
      discovery_feed_preScan hcs_def [symmetric]
    by (simp add: v tx discovery_register t r syncedRootComponent_fields discoveredComponent_def
        del: buildTransactionLoop.simps discoverAndRegisterEndpoints.simps)
  show ?thesis
    by (simp add: updateFromDirectory_def root_parse parse_examples k Let_def
        syncedRootComponent_fields discovery_history a)
qed

lemma discoveredComponent_fields:
  "QueryDirectory (config discoveredComponent) = ''http://localhost:8080/fhir''"
  "SnapshotModeSupport (config discoveredComponent) = True"
  "lastUpdateTimes discoveredComponent =
     [''http://root.example.org/fhir'' \<mapsto> ''2025-06-01T00:00:00Z'']"
  "administrationDirectories discoveredComponent = [rootDirectory, discoveredDirectory]"
  by (simp_all add: discoveredComponent_def syncedRootComponent_fields)

lemma discovery_snapshot:
  "snapshotLoop exampleExternals discoveryAnswers 0 defaultDirectoryResourceTypes [] emptyBundle =
   Inr ([], \<lparr>Entry = [], Meta = Some \<lparr>MetaLastUpdated = None\<rparr>\<rparr>)"
  by (simp add: defaultDirectoryResourceTypes_def discoveryAnswers_def one_page_query)

lemma discovery_directory_sync:
  "updateFromDirectory exampleExternals discoveryAnswers discoveredComponent
     ''https://directory.example.org/fhir'' defaultDirectoryResourceTypes False ''100'' =
   (discoveredComponent, emptyReport, None)"
proof -
  have k: "makeDirectoryKey ''https://directory.example.org/fhir'' ''100'' =
      ''https://directory.example.org/fhir|100''"
    by (simp add: makeDirectoryKey_def)
  have p: "url_Parse exampleExternals ''https://directory.example.org/fhir'' =
     Inr \<lparr>Scheme = ''https'', Host = ''directory.example.org''\<rparr>"
    by (simp add: exampleExternals_def example_Parse_def)
  have c: "discoveredComponent\<lparr>lastUpdateTimes :=
      [''http://root.example.org/fhir'' \<mapsto> ''2025-06-01T00:00:00Z'']\<rparr>
      = discoveredComponent"
    by (simp add: discoveredComponent_def)
  have v: "ValidateParentOrganizations exampleExternals [(rootOrgA, [])] = None"
    by (simp add: exampleExternals_def)
  have d: "deduplicateHistoryEntries exampleExternals [] = []"
    by (simp add: deduplicateHistoryEntries_def)
  have a: "applyEntries exampleExternals discoveryAnswers discoveredComponent
      ''https://directory.example.org/fhir'' defaultDirectoryResourceTypes False ''100''
      [] \<lparr>Entry = [], Meta = Some \<lparr>MetaLastUpdated = None\<rparr>\<rparr> =
    (discoveredComponent, emptyReport, None)"
    unfolding applyEntries_def Let_def k discovery_tree d
    by (simp add: v preScan_def)
  show ?thesis
    by (simp add: updateFromDirectory_def p parse_examples k Let_def
        discoveredComponent_fields discovery_snapshot c a)
qed

lemma discovery_run:
  "steadyRun exampleExternals (\<lambda>n. discoveryAnswers) syncedRootComponent Map.empty 0
     (discoveredComponent,
      [''http://root.example.org/fhir'' \<mapsto> emptyReport\<lparr>CountCreated := 1\<rparr>,
       ''https://directory.example.org/fhir|100'' \<mapsto> emptyReport])"
proof (rule steadyStep)
  show "0 < length (administrationDirectories syncedRootComponent)"
    by (simp add: syncedRootComponent_fields)
  show "updateStep exampleExternals discoveryAnswers syncedRootComponent Map.empty 0 =
      (discoveredComponent,
       [''http://root.example.org/fhir'' \<mapsto> emptyReport\<lparr>CountCreated := 1\<rparr>])"
    by (simp add: updateStep_def syncedRootComponent_fields rootDirectory_def
        discovery_root_sync makeDirectoryKey_def)
  show "take (Suc 0) (administrationDirectories discoveredComponent) =
      take (Suc 0) (administrationDirectories syncedRootComponent)"
    by (simp add: syncedRootComponent_fields discoveredComponent_fields)
  show "steadyRun exampleExternals (\<lambda>n. discoveryAnswers) discoveredComponent
      [''http://root.example.org/fhir'' \<mapsto> emptyReport\<lparr>CountCreated := 1\<rparr>] (Suc 0)
      (discoveredComponent,
       [''http://root.example.org/fhir'' \<mapsto> emptyReport\<lparr>CountCreated := 1\<rparr>,
        ''https://directory.example.org/fhir|100'' \<mapsto> emptyReport])"
  proof (rule steadyStep)
    show "Suc 0 < length (administrationDirectories discoveredComponent)"
      by (simp add: discoveredComponent_fields)
    show "updateStep exampleExternals discoveryAnswers discoveredComponent
        [''http://root.example.org/fhir'' \<mapsto> emptyReport\<lparr>CountCreated := 1\<rparr>] (Suc 0) =
      (discoveredComponent,
       [''http://root.example.org/fhir'' \<mapsto> emptyReport\<lparr>CountCreated := 1\<rparr>,
        ''https://directory.example.org/fhir|100'' \<mapsto> emptyReport])"
      by (simp add: updateStep_def discoveredComponent_fields discoveredDirectory_def
          discovery_directory_sync [unfolded discoveredDirectory_def] makeDirectoryKey_def)
    show "take (Suc (Suc 0)) (administrationDirectories discoveredComponent) =
        take (Suc (Suc 0)) (administrationDirectories discoveredComponent)"
      by simp
    show "steadyRun exampleExternals (\<lambda>n. discoveryAnswers) discoveredComponent
        [''http://root.example.org/fhir'' \<mapsto> emptyReport\<lparr>CountCreated := 1\<rparr>,
         ''https://directory.example.org/fhir|100'' \<mapsto> emptyReport] (Suc (Suc 0))
        (discoveredComponent,
         [''http://root.example.org/fhir'' \<mapsto> emptyReport\<lparr>CountCreated := 1\<rparr>,
          ''https://directory.example.org/fhir|100'' \<mapsto> emptyReport])"
      by (rule steadyEnd) (simp add: discoveredComponent_fields)
  qed
qed

text \<open>The theorem at that run: the directory that discovery appends in the root's round
  is synced in the next round of the same run.\<close>

theorem steady_run_reports_every_directory_witness:
  "update exampleExternals (\<lambda>n. discoveryAnswers) syncedRootComponent =
     Some (discoveredComponent,
       [''http://root.example.org/fhir'' \<mapsto> emptyReport\<lparr>CountCreated := 1\<rparr>,
        ''https://directory.example.org/fhir|100'' \<mapsto> emptyReport])
   \<and> administrationDirectories syncedRootComponent = [rootDirectory]
   \<and> administrationDirectories discoveredComponent = [rootDirectory, discoveredDirectory]
   \<and> directoryKey discoveredDirectory = ''https://directory.example.org/fhir|100''"
  using steady_run_reports_every_directory [OF discovery_run]
  by (simp add: syncedRootComponent_fields discoveredComponent_fields directoryKey_def
      discoveredDirectory_def makeDirectoryKey_def)

end
